theory Spec2Isabelle
  imports Main "HOL-Library.Sublist" "HOL-Library.Multiset"
begin

section \<open>Strings of the host language\<close>

text \<open>
  The search code works on JavaScript strings through \<^verbatim>\<open>toLowerCase\<close>,
  \<^verbatim>\<open>split(/\s+/)\<close>, \<^verbatim>\<open>startsWith\<close>, \<^verbatim>\<open>includes\<close> and
  \<^verbatim>\<open>join(' ')\<close>. A string is modelled as a \<^typ>\<open>string\<close> whose characters
  are the code units \<open>0..255\<close> (the Latin-1 range, which contains every character of
  the catalog). On that range \<^verbatim>\<open>toLowerCase\<close> maps \<open>A..Z\<close> and the
  accented capitals \<open>0xC0..0xDE\<close> (without the multiplication sign \<open>0xD7\<close>) to the
  code unit 32 above, and the class \<^verbatim>\<open>\s\<close> holds the code units
  9, 10, 11, 12, 13, 32 and 160.
\<close>

definition isUpper :: "char \<Rightarrow> bool" where
  "isUpper c =
     (let n = (of_char c :: nat)
      in (65 \<le> n \<and> n \<le> 90) \<or> (192 \<le> n \<and> n \<le> 222 \<and> n \<noteq> 215))"

definition toLowerChar :: "char \<Rightarrow> char" where
  "toLowerChar c = (if isUpper c then char_of (of_char c + (32 :: nat)) else c)"

definition toLowerCase :: "string \<Rightarrow> string" where
  "toLowerCase s = map toLowerChar s"

definition isWhiteSpace :: "char \<Rightarrow> bool" where
  "isWhiteSpace c = ((of_char c :: nat) \<in> {9, 10, 11, 12, 13, 32, 160})"

text \<open>
  \<^verbatim>\<open>s.split(/\s+/)\<close>: the text before the first run of white space, then the
  split of what follows the run. A string without white space (the empty one too) is a
  single piece, so a leading or a trailing run leaves an empty piece.
\<close>

function split_ws :: "string \<Rightarrow> string list" where
  "split_ws s =
     (let piece = takeWhile (\<lambda>c. \<not> isWhiteSpace c) s;
          rest = dropWhile (\<lambda>c. \<not> isWhiteSpace c) s
      in if rest = [] then [piece] else piece # split_ws (dropWhile isWhiteSpace rest))"
  by pat_completeness auto
termination
proof (relation "measure length")
  show "wf (measure length)" by simp
next
  fix s :: string and piece rest
  assume r: "rest = dropWhile (\<lambda>c. \<not> isWhiteSpace c) s" and ne: "rest \<noteq> []"
  from ne obtain c cs where rc: "rest = c # cs" by (cases rest) auto
  from r rc have "isWhiteSpace c"
    using dropWhile_eq_Cons_conv [of "\<lambda>c. \<not> isWhiteSpace c" s c cs] by simp
  then have "dropWhile isWhiteSpace rest = dropWhile isWhiteSpace cs"
    by (simp add: rc)
  then have "length (dropWhile isWhiteSpace rest) \<le> length cs"
    by (simp add: length_dropWhile_le)
  moreover have "length rest \<le> length s"
    by (simp add: r length_dropWhile_le)
  ultimately show "(dropWhile isWhiteSpace rest, s) \<in> measure length"
    by (simp add: rc)
qed

declare split_ws.simps [simp del]

text \<open>\<^verbatim>\<open>s.startsWith(t)\<close> and \<^verbatim>\<open>s.includes(t)\<close>.\<close>

definition startsWith :: "string \<Rightarrow> string \<Rightarrow> bool" where
  "startsWith s t = (take (length t) s = t)"

fun includesStr :: "string \<Rightarrow> string \<Rightarrow> bool" where
  "includesStr [] t = (t = [])"
| "includesStr (c # cs) t = (startsWith (c # cs) t \<or> includesStr cs t)"

text \<open>\<^verbatim>\<open>xs.join(sep)\<close>.\<close>

fun join :: "string \<Rightarrow> string list \<Rightarrow> string" where
  "join sep [] = []"
| "join sep [x] = x"
| "join sep (x # y # ys) = x @ sep @ join sep (y # ys)"

section \<open>Records and the catalog\<close>

record SearchRecord =
  title :: string
  description :: string
  category :: string
  page :: string
  keywordList :: "string list"

record ScoredRecord = SearchRecord +
  score :: int

text \<open>\<^verbatim>\<open>SearchHandler.loadSearchData\<close>: the fixed catalog, in its order.\<close>

definition loadSearchData :: "SearchRecord list" where
  "loadSearchData = [
   \<lparr> title = ''Sing & Rhyme'',
     description = ''Turn lessons into songs to improve retention and make learning fun'',
     category = ''Elementary'', page = ''elementary.html'',
     keywordList = [''music'', ''memory'', ''songs'', ''retention''] \<rparr>,
   \<lparr> title = ''Colorful Flashcards'',
     description = ''Use colors and images for vocabulary and facts'',
     category = ''Elementary'', page = ''elementary.html'',
     keywordList = [''visual'', ''memory'', ''colors'', ''vocabulary''] \<rparr>,
   \<lparr> title = ''Short Sessions'',
     description = ''Study for 15-25 minutes then take breaks'',
     category = ''Elementary'', page = ''elementary.html'',
     keywordList = [''focus'', ''breaks'', ''time management''] \<rparr>,
   \<lparr> title = ''Read Aloud'',
     description = ''Reading aloud helps comprehension and memory'',
     category = ''Elementary'', page = ''elementary.html'',
     keywordList = [''reading'', ''comprehension''] \<rparr>,
   \<lparr> title = ''Cornell Notes'',
     description = ''Organize lectures into cues, notes, and summaries'',
     category = ''High School'', page = ''highschool.html'',
     keywordList = [''notes'', ''organization'', ''lectures'', ''review''] \<rparr>,
   \<lparr> title = ''Mnemonics'',
     description = ''Use memory devices for sequences like PEMDAS'',
     category = ''High School'', page = ''highschool.html'',
     keywordList = [''memory'', ''tricks'', ''sequences''] \<rparr>,
   \<lparr> title = ''Mind Maps'',
     description = ''Connect ideas visually to improve understanding'',
     category = ''High School'', page = ''highschool.html'',
     keywordList = [''visual'', ''connections'', ''diagrams''] \<rparr>,
   \<lparr> title = ''Pomodoro Technique'',
     description = ''Study for 25 minutes then 5-minute break'',
     category = ''High School'', page = ''highschool.html'',
     keywordList = [''focus'', ''timer'', ''productivity'', ''breaks''] \<rparr>,
   \<lparr> title = ''Flashcard Apps'',
     description = ''Use Anki or Quizlet for spaced repetition'',
     category = ''High School'', page = ''highschool.html'',
     keywordList = [''apps'', ''technology'', ''spaced repetition'', ''anki'', ''quizlet''] \<rparr>,
   \<lparr> title = ''Study Groups'',
     description = ''Explain concepts to peers to deepen comprehension'',
     category = ''High School'', page = ''highschool.html'',
     keywordList = [''collaboration'', ''peers'', ''teaching''] \<rparr>,
   \<lparr> title = ''Past Papers'',
     description = ''Practice with old exam formats under timed conditions'',
     category = ''High School'', page = ''highschool.html'',
     keywordList = [''practice'', ''exams'', ''testing''] \<rparr>,
   \<lparr> title = ''Career Mapping'',
     description = ''Identify pathways early using interest inventories'',
     category = ''Senior High'', page = ''seniorhigh.html'',
     keywordList = [''career'', ''planning'', ''future''] \<rparr>,
   \<lparr> title = ''Time Blocking'',
     description = ''Plan fixed hours for subjects and rest'',
     category = ''Senior High'', page = ''seniorhigh.html'',
     keywordList = [''schedule'', ''time management'', ''planning''] \<rparr>,
   \<lparr> title = ''Mock Interviews'',
     description = ''Practice responses with peers for confidence'',
     category = ''Senior High'', page = ''seniorhigh.html'',
     keywordList = [''interview'', ''practice'', ''career''] \<rparr>,
   \<lparr> title = ''Digital Literacy'',
     description = ''Learn Google Suite, Excel, and Canva basics'',
     category = ''Senior High'', page = ''seniorhigh.html'',
     keywordList = [''technology'', ''digital'', ''tools'', ''google'', ''excel'', ''canva''] \<rparr>,
   \<lparr> title = ''Portfolio Building'',
     description = ''Compile best works, certificates, and achievements'',
     category = ''Senior High'', page = ''seniorhigh.html'',
     keywordList = [''portfolio'', ''achievements'', ''career''] \<rparr>,
   \<lparr> title = ''Research Databases'',
     description = ''Master JSTOR, Google Scholar, and library access'',
     category = ''University'', page = ''university.html'',
     keywordList = [''research'', ''academic'', ''databases'', ''jstor'', ''scholar''] \<rparr>,
   \<lparr> title = ''Citation Managers'',
     description = ''Use Zotero, Mendeley, or EndNote for references'',
     category = ''University'', page = ''university.html'',
     keywordList = [''citations'', ''references'', ''zotero'', ''mendeley''] \<rparr>,
   \<lparr> title = ''Critical Reading'',
     description = ''Evaluate sources, analyze arguments, identify biases'',
     category = ''University'', page = ''university.html'',
     keywordList = [''reading'', ''analysis'', ''critical thinking''] \<rparr>,
   \<lparr> title = ''Thesis Planning'',
     description = ''Outline research chapters early with timeline'',
     category = ''University'', page = ''university.html'',
     keywordList = [''thesis'', ''research'', ''planning'', ''writing''] \<rparr>,
   \<lparr> title = ''Academic Balance'',
     description = ''Combine mental breaks with focused study sessions'',
     category = ''University'', page = ''university.html'',
     keywordList = [''balance'', ''wellness'', ''breaks'', ''pomodoro''] \<rparr>
  ]"

section \<open>SearchHandler.searchContent\<close>

text \<open>
  The query's terms:
  \<^verbatim>\<open>query.toLowerCase().split(/\s+/).filter(term => term.length > 1)\<close>.
\<close>

definition searchTerms :: "string \<Rightarrow> string list" where
  "searchTerms query = filter (\<lambda>term. length term > 1) (split_ws (toLowerCase query))"

text \<open>
  The body of \<^verbatim>\<open>searchTerms.forEach(term => ...)\<close>: the running \<open>score\<close> goes in
  and comes out.
\<close>

definition scoreTerm :: "string \<Rightarrow> string \<Rightarrow> string \<Rightarrow> string \<Rightarrow> int \<Rightarrow> string \<Rightarrow> int" where
  "scoreTerm titleLower descLower keywordsLower categoryLower score0 term =
     (let score1 = (if titleLower = term then score0 + 100
                    else if startsWith titleLower term then score0 + 75
                    else if includesStr titleLower term then score0 + 50
                    else score0);
          score2 = (if includesStr descLower term then score1 + 30 else score1);
          score3 = (if includesStr keywordsLower term then score2 + 25 else score2);
          score4 = (if includesStr categoryLower term then score3 + 15 else score3)
      in score4)"

text \<open>The callback of \<^verbatim>\<open>.map(item => ...)\<close>, returning \<^verbatim>\<open>{ ...item, score }\<close>.\<close>

definition scoreItem :: "string list \<Rightarrow> SearchRecord \<Rightarrow> ScoredRecord" where
  "scoreItem terms item =
     (let titleLower = toLowerCase (title item);
          descLower = toLowerCase (description item);
          keywordsLower = toLowerCase (join '' '' (keywordList item));
          categoryLower = toLowerCase (category item);
          sc = foldl (scoreTerm titleLower descLower keywordsLower categoryLower) 0 terms
      in \<lparr> title = title item, description = description item, category = category item,
           page = page item, keywordList = keywordList item, score = sc \<rparr>)"

text \<open>
  \<^verbatim>\<open>Array.prototype.sort(compare)\<close> with a consistent comparator: the language
  standard (since its 2019 edition) makes the sort stable, so the result is the one of
  an insertion sort that puts an element before the first one it does not compare
  greater than.
\<close>

fun sort_insert :: "('a \<Rightarrow> 'a \<Rightarrow> int) \<Rightarrow> 'a \<Rightarrow> 'a list \<Rightarrow> 'a list" where
  "sort_insert cmp x [] = [x]"
| "sort_insert cmp x (y # ys) =
     (if cmp x y \<le> 0 then x # y # ys else y # sort_insert cmp x ys)"

fun array_sort :: "('a \<Rightarrow> 'a \<Rightarrow> int) \<Rightarrow> 'a list \<Rightarrow> 'a list" where
  "array_sort cmp [] = []"
| "array_sort cmp (x # xs) = sort_insert cmp x (array_sort cmp xs)"

definition SEARCH_RESULT_LIMIT :: nat where
  "SEARCH_RESULT_LIMIT = 10"

text \<open>The comparator \<^verbatim>\<open>(a, b) => b.score - a.score\<close>, and the function itself.\<close>

definition compareScore :: "ScoredRecord \<Rightarrow> ScoredRecord \<Rightarrow> int" where
  "compareScore a b = score b - score a"

definition searchContent :: "SearchRecord list \<Rightarrow> string \<Rightarrow> ScoredRecord list" where
  "searchContent searchData query =
     (let terms = searchTerms query
      in if length terms = 0 then []
         else take SEARCH_RESULT_LIMIT
                (array_sort compareScore
                  (filter (\<lambda>item. score item > 0)
                    (map (scoreItem terms) searchData))))"

section \<open>The specification's wording\<close>

text \<open>
  The tokenizer as the specification words it: lowercase the query, split it at runs of
  white space, drop the tokens of length at most one. The split is read character by
  character: \<open>cur\<close> is the token being read, and a run of white space ends it.
\<close>

fun runs_acc :: "string \<Rightarrow> string \<Rightarrow> string list" where
  "runs_acc cur [] = (if cur = [] then [] else [cur])"
| "runs_acc cur (c # cs) =
     (if isWhiteSpace c then (if cur = [] then runs_acc [] cs else cur # runs_acc [] cs)
      else runs_acc (cur @ [c]) cs)"

definition tokenize :: "string \<Rightarrow> string list" where
  "tokenize query = filter (\<lambda>t. \<not> length t \<le> 1) (runs_acc [] (toLowerCase query))"

text \<open>
  What one term adds to a record's score in the specification's words: one of the three
  title tiers at most, and the description, keyword and category bonuses each on its
  own.
\<close>

definition title_tier :: "SearchRecord \<Rightarrow> string \<Rightarrow> int" where
  "title_tier r t =
     (if t = toLowerCase (title r) then 100
      else if prefix t (toLowerCase (title r)) then 75
      else if sublist t (toLowerCase (title r)) then 50
      else 0)"

definition term_score :: "SearchRecord \<Rightarrow> string \<Rightarrow> int" where
  "term_score r t =
     title_tier r t
     + (if sublist t (toLowerCase (description r)) then 30 else 0)
     + (if sublist t (toLowerCase (join '' '' (keywordList r))) then 25 else 0)
     + (if sublist t (toLowerCase (category r)) then 15 else 0)"

text \<open>
  What the language standard lets \<^verbatim>\<open>sort\<close> return for a consistent comparator:
  a rearrangement of the array, in the comparator's order, that keeps the elements
  comparing equal in their order. \<open>searchContent_result\<close> is \<open>searchContent\<close> with
  any such result in the place of the sort.
\<close>

definition is_stable_sort :: "('a \<Rightarrow> 'a \<Rightarrow> int) \<Rightarrow> 'a list \<Rightarrow> 'a list \<Rightarrow> bool" where
  "is_stable_sort cmp xs ys \<longleftrightarrow>
     mset ys = mset xs \<and> sorted_wrt (\<lambda>a b. cmp a b \<le> 0) ys \<and>
     (\<forall>x. filter (\<lambda>y. cmp x y = 0) ys = filter (\<lambda>y. cmp x y = 0) xs)"

definition searchContent_result :: "SearchRecord list \<Rightarrow> string \<Rightarrow> ScoredRecord list \<Rightarrow> bool" where
  "searchContent_result searchData query out \<longleftrightarrow>
     (let terms = searchTerms query
      in if length terms = 0 then out = []
         else (\<exists>sorted.
                 is_stable_sort compareScore
                   (filter (\<lambda>item. score item > 0) (map (scoreItem terms) searchData)) sorted
                 \<and> out = take SEARCH_RESULT_LIMIT sorted))"

section \<open>The terms of a query on UTF-16 code units\<close>

text \<open>
  A string of the host language is a sequence of 16-bit code units, here natural
  numbers. The class \<^verbatim>\<open>\s\<close> of a pattern without the flag \<open>u\<close> holds the code
  units 9 to 13, 32, 160, U+1680, U+2000 to U+200A, U+2028, U+2029, U+202F, U+205F,
  U+3000 and U+FEFF. \<^verbatim>\<open>toLowerCase\<close> is the engine's, with the case tables of
  Unicode behind it: in the terms of a query it is a parameter, \<open>lower\<close>.
\<close>

definition isWhiteSpace16 :: "nat \<Rightarrow> bool" where
  "isWhiteSpace16 c \<longleftrightarrow>
     (9 \<le> c \<and> c \<le> 13) \<or> c = 32 \<or> c = 160 \<or> c = 0x1680
     \<or> (0x2000 \<le> c \<and> c \<le> 0x200A)
     \<or> c = 0x2028 \<or> c = 0x2029 \<or> c = 0x202F \<or> c = 0x205F \<or> c = 0x3000 \<or> c = 0xFEFF"

text \<open>\<^verbatim>\<open>s.split(/\s+/)\<close> and the terms, as \<open>split_ws\<close> and \<open>searchTerms\<close> above.\<close>

function split_ws16 :: "nat list \<Rightarrow> nat list list" where
  "split_ws16 s =
     (let piece = takeWhile (\<lambda>c. \<not> isWhiteSpace16 c) s;
          rest = dropWhile (\<lambda>c. \<not> isWhiteSpace16 c) s
      in if rest = [] then [piece] else piece # split_ws16 (dropWhile isWhiteSpace16 rest))"
  by pat_completeness auto
termination
proof (relation "measure length")
  show "wf (measure length)" by simp
next
  fix s :: "nat list" and piece rest
  assume r: "rest = dropWhile (\<lambda>c. \<not> isWhiteSpace16 c) s" and ne: "rest \<noteq> []"
  from ne obtain c cs where rc: "rest = c # cs" by (cases rest) auto
  from r rc have "isWhiteSpace16 c"
    using dropWhile_eq_Cons_conv [of "\<lambda>c. \<not> isWhiteSpace16 c" s c cs] by simp
  then have "dropWhile isWhiteSpace16 rest = dropWhile isWhiteSpace16 cs"
    by (simp add: rc)
  then have "length (dropWhile isWhiteSpace16 rest) \<le> length cs"
    by (simp add: length_dropWhile_le)
  moreover have "length rest \<le> length s"
    by (simp add: r length_dropWhile_le)
  ultimately show "(dropWhile isWhiteSpace16 rest, s) \<in> measure length"
    by (simp add: rc)
qed

declare split_ws16.simps [simp del]

definition searchTerms16 :: "(nat list \<Rightarrow> nat list) \<Rightarrow> nat list \<Rightarrow> nat list list" where
  "searchTerms16 lower query = filter (\<lambda>term. length term > 1) (split_ws16 (lower query))"

text \<open>The tokenizer in the specification's words, on code units.\<close>

fun runs_acc16 :: "nat list \<Rightarrow> nat list \<Rightarrow> nat list list" where
  "runs_acc16 cur [] = (if cur = [] then [] else [cur])"
| "runs_acc16 cur (c # cs) =
     (if isWhiteSpace16 c then (if cur = [] then runs_acc16 [] cs else cur # runs_acc16 [] cs)
      else runs_acc16 (cur @ [c]) cs)"

definition tokenize16 :: "(nat list \<Rightarrow> nat list) \<Rightarrow> nat list \<Rightarrow> nat list list" where
  "tokenize16 lower query = filter (\<lambda>t. \<not> length t \<le> 1) (runs_acc16 [] (lower query))"

text \<open>
  The engine's lowercase mapping and the uppercase letters (general category Lu) on the
  code units that the theorems below evaluate: the range \<open>0..255\<close>, and the 27
  uppercase letters of the Basic Multilingual Plane that have no lowercase letter
  (U+03D2 to U+03D4, the Greek upsilon with hook symbols, and 24 letterlike symbols),
  which \<^verbatim>\<open>toLowerCase\<close> leaves as they are. For another code unit the two
  definitions are not the engine's tables, and nothing below evaluates them there.
\<close>

definition upper_without_lower :: "nat list" where
  "upper_without_lower =
     [0x3D2, 0x3D3, 0x3D4, 0x2102, 0x2107, 0x210B, 0x210C, 0x210D, 0x2110, 0x2111, 0x2112,
      0x2115, 0x2119, 0x211A, 0x211B, 0x211C, 0x211D, 0x2124, 0x2128, 0x212C, 0x212D,
      0x2130, 0x2131, 0x2133, 0x213E, 0x213F, 0x2145]"

definition isUpper16 :: "nat \<Rightarrow> bool" where
  "isUpper16 c \<longleftrightarrow>
     (65 \<le> c \<and> c \<le> 90) \<or> (192 \<le> c \<and> c \<le> 222 \<and> c \<noteq> 215)
     \<or> c \<in> set upper_without_lower"

definition toLowerUnit16 :: "nat \<Rightarrow> nat" where
  "toLowerUnit16 c =
     (if (65 \<le> c \<and> c \<le> 90) \<or> (192 \<le> c \<and> c \<le> 222 \<and> c \<noteq> 215) then c + 32 else c)"

definition toLowerCase16 :: "nat list \<Rightarrow> nat list" where
  "toLowerCase16 s = map toLowerUnit16 s"

section \<open>AppState: the preferences and the preference store\<close>

text \<open>
  Values of the host language, as far as \<open>AppState\<close> reads them: the code asks whether
  a value is truthy, reads its property \<open>theme\<close>, writes that property and passes the
  value where a string is expected. A number is kept as an integer. An array has its
  elements and, as any object, its named properties. No value is a function: the values
  come from \<^verbatim>\<open>JSON.parse\<close> and from the literals of the code.
\<close>

datatype jsval =
    JUndefined
  | JNull
  | JBool bool
  | JNum int
  | JStr string
  | JArr "jsval list" "(string \<times> jsval) list"
  | JObj "(string \<times> jsval) list"

text \<open>A thrown exception, with its message.\<close>

datatype exn =
    SecurityError string
  | QuotaExceededError string
  | SyntaxError string
  | TypeError string

fun message :: "exn \<Rightarrow> string" where
  "message (SecurityError m) = m"
| "message (QuotaExceededError m) = m"
| "message (SyntaxError m) = m"
| "message (TypeError m) = m"

text \<open>
  The state the code works on: the two fields of \<open>AppState\<close> that the preference code
  touches, and what it reaches of the browser. \<open>storage = None\<close> is a browser that
  denies the access to \<^verbatim>\<open>localStorage\<close>; \<open>quota\<close> is the room of the store;
  \<open>prefers_dark = None\<close> is a browser without \<^verbatim>\<open>window.matchMedia\<close>;
  \<open>warnings\<close> is what \<^verbatim>\<open>console.warn\<close> has printed; \<open>data_theme\<close> and
  \<open>dark_mode\<close> are the attribute (\<open>None\<close> while it is not set) and the class that
  \<open>applyTheme\<close> sets;
  \<open>theme_listener\<close> tells whether the listener for the system theme is registered.
\<close>

record World =
  theme :: jsval
  preferences :: jsval
  storage :: "(string \<times> string) list option"
  quota :: nat
  prefers_dark :: "bool option"
  warnings :: "string list"
  data_theme :: "string option"
  dark_mode :: bool
  theme_listener :: bool

text \<open>
  \<^verbatim>\<open>JSON.parse\<close> and \<^verbatim>\<open>JSON.stringify\<close> are the engine's: any function that
  returns a value or throws.
\<close>

record Engine =
  JSON_parse :: "string \<Rightarrow> exn + jsval"
  JSON_stringify :: "jsval \<Rightarrow> exn + string"

text \<open>
  A piece of code takes the state and gives the state it leaves, with its value or the
  exception it throws: what was assigned before a \<^verbatim>\<open>throw\<close> stays assigned.
\<close>

type_synonym 'a js = "World \<Rightarrow> (exn + 'a) \<times> World"

definition js_return :: "'a \<Rightarrow> 'a js" where
  "js_return v w = (Inr v, w)"

definition js_bind :: "'a js \<Rightarrow> ('a \<Rightarrow> 'b js) \<Rightarrow> 'b js" where
  "js_bind m f w = (case m w of (Inl e, w') \<Rightarrow> (Inl e, w') | (Inr v, w') \<Rightarrow> f v w')"

definition js_lift :: "exn + 'a \<Rightarrow> 'a js" where
  "js_lift r w = (r, w)"

text \<open>\<^verbatim>\<open>try { body } catch (e) { handler }\<close>.\<close>

definition try_catch :: "'a js \<Rightarrow> (exn \<Rightarrow> 'a js) \<Rightarrow> 'a js" where
  "try_catch body handler w =
     (case body w of (Inl e, w') \<Rightarrow> handler e w' | (Inr v, w') \<Rightarrow> (Inr v, w'))"

text \<open>
  Truthiness, and the property \<open>theme\<close> of a value, read and written. Reading or
  writing a property of \<^verbatim>\<open>null\<close> or \<^verbatim>\<open>undefined\<close> throws a \<open>TypeError\<close>
  (the messages are V8's); writing a property of a primitive value does nothing.
\<close>

definition get_prop :: "string \<Rightarrow> (string \<times> jsval) list \<Rightarrow> jsval" where
  "get_prop k kvs = (case map_of kvs k of None \<Rightarrow> JUndefined | Some v \<Rightarrow> v)"

definition set_prop :: "string \<Rightarrow> jsval \<Rightarrow> (string \<times> jsval) list \<Rightarrow> (string \<times> jsval) list" where
  "set_prop k v kvs =
     (if k \<in> fst ` set kvs then map (\<lambda>kv. if fst kv = k then (k, v) else kv) kvs
      else kvs @ [(k, v)])"

fun truthy :: "jsval \<Rightarrow> bool" where
  "truthy JUndefined = False"
| "truthy JNull = False"
| "truthy (JBool b) = b"
| "truthy (JNum n) = (n \<noteq> 0)"
| "truthy (JStr s) = (s \<noteq> [])"
| "truthy (JArr xs ps) = True"
| "truthy (JObj kvs) = True"

fun get_theme :: "jsval \<Rightarrow> exn + jsval" where
  "get_theme JUndefined =
     Inl (TypeError ''Cannot read properties of undefined (reading 'theme')'')"
| "get_theme JNull = Inl (TypeError ''Cannot read properties of null (reading 'theme')'')"
| "get_theme (JObj kvs) = Inr (get_prop ''theme'' kvs)"
| "get_theme (JArr xs ps) = Inr (get_prop ''theme'' ps)"
| "get_theme v = Inr JUndefined"

fun put_theme :: "jsval \<Rightarrow> jsval \<Rightarrow> exn + jsval" where
  "put_theme JUndefined v =
     Inl (TypeError ''Cannot set properties of undefined (setting 'theme')'')"
| "put_theme JNull v = Inl (TypeError ''Cannot set properties of null (setting 'theme')'')"
| "put_theme (JObj kvs) v = Inr (JObj (set_prop ''theme'' v kvs))"
| "put_theme (JArr xs ps) v = Inr (JArr xs (set_prop ''theme'' v ps))"
| "put_theme p v = Inr p"

text \<open>
  The conversion of a value to a string, which \<^verbatim>\<open>setAttribute\<close> applies to its
  second argument. An object is converted by its \<^verbatim>\<open>toString\<close>, then by its
  \<^verbatim>\<open>valueOf\<close>. An object with a property \<open>toString\<close> of its own (which is no
  function) has no inherited \<^verbatim>\<open>toString\<close>, and \<^verbatim>\<open>valueOf\<close> gives no
  primitive value: the conversion throws a \<open>TypeError\<close>. An array is converted by
  its \<^verbatim>\<open>join\<close>: its elements converted in their order, \<^verbatim>\<open>null\<close> and
  \<^verbatim>\<open>undefined\<close> to the empty string, with commas between.
\<close>

function show_nat :: "nat \<Rightarrow> string" where
  "show_nat n =
     (if n < 10 then [char_of (48 + n)]
      else show_nat (n div 10) @ [char_of (48 + n mod 10)])"
  by pat_completeness auto
termination
  by (relation "measure (\<lambda>n. n)") auto

declare show_nat.simps [simp del]

definition show_int :: "int \<Rightarrow> string" where
  "show_int i = (if i < 0 then ''-'' @ show_nat (nat (- i)) else show_nat (nat i))"

fun ToString :: "jsval \<Rightarrow> exn + string"
  and join_elements :: "jsval list \<Rightarrow> exn + string" where
  "ToString JUndefined = Inr ''undefined''"
| "ToString JNull = Inr ''null''"
| "ToString (JBool b) = Inr (if b then ''true'' else ''false'')"
| "ToString (JNum n) = Inr (show_int n)"
| "ToString (JStr s) = Inr s"
| "ToString (JObj kvs) =
     (if ''toString'' \<in> fst ` set kvs
      then Inl (TypeError ''Cannot convert object to primitive value'')
      else Inr ''[object Object]'')"
| "ToString (JArr xs ps) =
     (if ''toString'' \<in> fst ` set ps
      then Inl (TypeError ''Cannot convert object to primitive value'')
      else if ''join'' \<in> fst ` set ps then Inr ''[object Array]''
      else join_elements xs)"
| "join_elements [] = Inr []"
| "join_elements (x # xs) =
     (case (if x = JUndefined \<or> x = JNull then Inr [] else ToString x) of
        Inl e \<Rightarrow> Inl e
      | Inr s \<Rightarrow>
          if xs = [] then Inr s
          else (case join_elements xs of
                  Inl e \<Rightarrow> Inl e
                | Inr r \<Rightarrow> Inr (s @ '','' @ r)))"

text \<open>\<^verbatim>\<open>localStorage.getItem\<close>, \<^verbatim>\<open>localStorage.setItem\<close>, \<^verbatim>\<open>console.warn\<close>.\<close>

definition STORAGE_KEY :: string where
  "STORAGE_KEY = ''studyBuddyPrefs''"

definition storage_size :: "(string \<times> string) list \<Rightarrow> nat" where
  "storage_size items = sum_list (map (\<lambda>kv. length (fst kv) + length (snd kv)) items)"

definition localStorage_getItem :: "string \<Rightarrow> string option js" where
  "localStorage_getItem key w =
     (case storage w of
        None \<Rightarrow> (Inl (SecurityError ''The operation is insecure''), w)
      | Some items \<Rightarrow> (Inr (map_of items key), w))"

definition localStorage_setItem :: "string \<Rightarrow> string \<Rightarrow> unit js" where
  "localStorage_setItem key val w =
     (case storage w of
        None \<Rightarrow> (Inl (SecurityError ''The operation is insecure''), w)
      | Some items \<Rightarrow>
          (let items' = (key, val) # filter (\<lambda>kv. fst kv \<noteq> key) items
           in if storage_size items' > quota w
              then (Inl (QuotaExceededError ''The quota has been exceeded''), w)
              else (Inr (), w\<lparr> storage := Some items' \<rparr>)))"

definition console_warn :: "string \<Rightarrow> string \<Rightarrow> unit js" where
  "console_warn label msg w = (Inr (), w\<lparr> warnings := warnings w @ [label @ '' '' @ msg] \<rparr>)"

text \<open>\<^verbatim>\<open>AppState.getSystemTheme\<close>.\<close>

definition getSystemTheme :: "World \<Rightarrow> jsval" where
  "getSystemTheme w = (if prefers_dark w = Some True then JStr ''dark'' else JStr ''light'')"

text \<open>
  \<^verbatim>\<open>AppState.loadPreferences\<close>: the body of its \<^verbatim>\<open>try\<close>, its \<^verbatim>\<open>catch\<close>,
  and the two together.
\<close>

definition loadPreferences_try :: "Engine \<Rightarrow> unit js" where
  "loadPreferences_try eng =
     js_bind (localStorage_getItem STORAGE_KEY) (\<lambda>saved.
     js_bind (case saved of
                None \<Rightarrow> js_return (JObj [])
              | Some s \<Rightarrow> if s \<noteq> [] then js_lift (JSON_parse eng s) else js_return (JObj []))
             (\<lambda>parsed.
     js_bind (\<lambda>w. (Inr (), w\<lparr> preferences := parsed \<rparr>)) (\<lambda>_.
     js_bind (\<lambda>w. (get_theme (preferences w), w)) (\<lambda>t.
       (\<lambda>w. (Inr (), w\<lparr> theme := (if truthy t then t else getSystemTheme w) \<rparr>))))))"

definition loadPreferences_catch :: "exn \<Rightarrow> unit js" where
  "loadPreferences_catch e =
     js_bind (console_warn ''Could not load preferences:'' (message e)) (\<lambda>_.
       (\<lambda>w. (Inr (), w\<lparr> preferences := JObj [] \<rparr>)))"

definition loadPreferences :: "Engine \<Rightarrow> unit js" where
  "loadPreferences eng = try_catch (loadPreferences_try eng) loadPreferences_catch"

text \<open>\<^verbatim>\<open>AppState.savePreferences\<close>, in the same three parts.\<close>

definition savePreferences_try :: "Engine \<Rightarrow> unit js" where
  "savePreferences_try eng =
     js_bind (\<lambda>w. (put_theme (preferences w) (theme w), w)) (\<lambda>p.
     js_bind (\<lambda>w. (Inr (), w\<lparr> preferences := p \<rparr>)) (\<lambda>_.
     js_bind (\<lambda>w. (JSON_stringify eng (preferences w), w)) (\<lambda>s.
       localStorage_setItem STORAGE_KEY s)))"

definition savePreferences_catch :: "exn \<Rightarrow> unit js" where
  "savePreferences_catch e = console_warn ''Could not save preferences:'' (message e)"

definition savePreferences :: "Engine \<Rightarrow> unit js" where
  "savePreferences eng = try_catch (savePreferences_try eng) savePreferences_catch"

text \<open>
  \<^verbatim>\<open>AppState.applyTheme\<close> sets the attribute and the class from \<open>theme\<close>:
  \<^verbatim>\<open>setAttribute('data-theme', this.theme)\<close> converts \<open>theme\<close> to a string, and
  throws when the conversion does, outside any \<^verbatim>\<open>try\<close>.
  \<^verbatim>\<open>AppState.setupSystemThemeListener\<close> reads \<^verbatim>\<open>this.preferences.theme\<close>
  when the browser has \<^verbatim>\<open>matchMedia\<close>, outside any \<^verbatim>\<open>try\<close> too. The other
  calls into the document (toggling a class, the icon of the toggle, registering the
  listener, the announcement after a toggle) get a boolean or a string of the code's
  own and are taken to succeed; only those that a property of the state records are
  kept.
\<close>

definition applyTheme :: "unit js" where
  "applyTheme w =
     (case ToString (theme w) of
        Inl e \<Rightarrow> (Inl e, w)
      | Inr s \<Rightarrow> (Inr (), w\<lparr> data_theme := Some s, dark_mode := (theme w = JStr ''dark'') \<rparr>))"

definition setupSystemThemeListener :: "unit js" where
  "setupSystemThemeListener w =
     (case prefers_dark w of
        None \<Rightarrow> (Inr (), w)
      | Some _ \<Rightarrow>
          (case get_theme (preferences w) of
             Inl e \<Rightarrow> (Inl e, w)
           | Inr t \<Rightarrow> if \<not> truthy t then (Inr (), w\<lparr> theme_listener := True \<rparr>)
                      else (Inr (), w)))"

text \<open>\<^verbatim>\<open>AppState.init\<close> and \<^verbatim>\<open>AppState.toggleTheme\<close>.\<close>

definition init :: "Engine \<Rightarrow> unit js" where
  "init eng =
     js_bind (loadPreferences eng) (\<lambda>_.
     js_bind applyTheme (\<lambda>_.
       setupSystemThemeListener))"

definition toggleTheme :: "Engine \<Rightarrow> unit js" where
  "toggleTheme eng =
     js_bind (\<lambda>w. (Inr (), w\<lparr> theme := (if theme w = JStr ''light'' then JStr ''dark''
                                           else JStr ''light'') \<rparr>)) (\<lambda>_.
     js_bind applyTheme (\<lambda>_.
       savePreferences eng))"

section \<open>SearchHandler.highlightText\<close>

text \<open>
  \<^verbatim>\<open>Helpers.escapeHtml\<close> writes the text into an element and reads the element's
  markup back: the serialisation of a text node replaces the ampersand, the two angle
  brackets and the no-break space.
\<close>

fun escapeHtml :: "string \<Rightarrow> string" where
  "escapeHtml [] = []"
| "escapeHtml (c # cs) =
     (if c = CHR ''&'' then ''&amp;''
      else if c = CHR ''<'' then ''&lt;''
      else if c = CHR ''>'' then ''&gt;''
      else if c = CHR 0xA0 then ''&nbsp;''
      else [c]) @ escapeHtml cs"

text \<open>
  The characters of the class in \<^verbatim>\<open>term.replace(/[.*+?^${}()|[\]\\]/g, '\\$&')\<close>,
  which are the syntax characters of a pattern, and the replacement: a backslash before
  each of them.
\<close>

definition backslash :: char where
  "backslash = CHR 0x5C"

definition isSyntaxCharacter :: "char \<Rightarrow> bool" where
  "isSyntaxCharacter c \<longleftrightarrow> c \<in> set ''.*+?^${}()|[]'' \<or> c = backslash"

definition escapeRegExp :: "string \<Rightarrow> string" where
  "escapeRegExp term = concat (map (\<lambda>c. if isSyntaxCharacter c then [backslash, c] else [c]) term)"

text \<open>
  \<^verbatim>\<open>new RegExp(pattern, 'gi')\<close>, for the patterns made of plain characters, escaped
  syntax characters and capturing groups. On these the constructor throws a
  \<open>SyntaxError\<close> for a closing parenthesis without its opening one, for a group
  left open and for a backslash that ends the pattern. Any other construct (a
  quantifier, a class, an alternative, an assertion, another escape, a group that
  starts with a question mark) is outside the model: \<open>Unmodelled\<close>, which is no
  result of the constructor.
\<close>

datatype node = Chr char | Grp "node list"

datatype compiled = Compiled "node list" | Rejected exn | Unmodelled

text \<open>
  The pattern is read from the left; the stack holds the groups that are open, the
  innermost first, each with its nodes in reverse.
\<close>

fun parse_pattern :: "string \<Rightarrow> node list list \<Rightarrow> compiled" where
  "parse_pattern [] [g] = Compiled (rev g)"
| "parse_pattern [] stack = Rejected (SyntaxError ''Unterminated group'')"
| "parse_pattern (c # cs) stack =
     (if c = CHR ''('' then
        (case cs of
           d # ds \<Rightarrow> if d = CHR ''?'' then Unmodelled else parse_pattern cs ([] # stack)
         | [] \<Rightarrow> parse_pattern cs ([] # stack))
      else if c = CHR '')'' then
        (case stack of
           g # parent # rest \<Rightarrow> parse_pattern cs ((Grp (rev g) # parent) # rest)
         | _ \<Rightarrow> Rejected (SyntaxError ''Unmatched )''))
      else if c = backslash then
        (case cs of
           [] \<Rightarrow> Rejected (SyntaxError ''Backslash at end of pattern'')
         | d # ds \<Rightarrow>
             if isSyntaxCharacter d \<or> d = CHR ''/''
             then (case stack of
                     g # rest \<Rightarrow> parse_pattern ds ((Chr d # g) # rest)
                   | [] \<Rightarrow> Unmodelled)
             else Unmodelled)
      else if isSyntaxCharacter c then Unmodelled
      else (case stack of
              g # rest \<Rightarrow> parse_pattern cs ((Chr c # g) # rest)
            | [] \<Rightarrow> Unmodelled))"

text \<open>
  The language standard sets no bound on a pattern; an engine does. The engine's bound is
  a parameter: \<open>None\<close> for an engine without one, \<open>Some l\<close> for an engine that
  throws \<open>SyntaxError\<close> (Regular expression too large) when the pattern has more
  than \<open>l\<close> characters to match. In V8 (Chrome, Node.js) a pattern with 32767
  characters to match compiles and one with 32768 does not: \<open>Some 32767\<close>.
\<close>

fun literal :: "node \<Rightarrow> string" where
  "literal (Chr c) = [c]"
| "literal (Grp ns) = concat (map literal ns)"

definition within_limit :: "nat option \<Rightarrow> nat \<Rightarrow> bool" where
  "within_limit limit n = (case limit of None \<Rightarrow> True | Some l \<Rightarrow> n \<le> l)"

definition RegExp_new :: "nat option \<Rightarrow> string \<Rightarrow> compiled" where
  "RegExp_new limit pattern =
     (case parse_pattern pattern [[]] of
        Compiled regex \<Rightarrow>
          if within_limit limit (length (concat (map literal regex))) then Compiled regex
          else Rejected (SyntaxError ''Regular expression too large'')
      | Rejected e \<Rightarrow> Rejected e
      | Unmodelled \<Rightarrow> Unmodelled)"

text \<open>
  What a compiled pattern of this kind matches is its characters in their order
  (\<open>literal\<close> above), each up
  to case (the flag \<open>i\<close>): \<open>canonicalize\<close> is the standard's, the uppercase of a
  character when that is one code unit. A character whose uppercase lies outside the
  range \<open>0..255\<close> (the micro sign, the y with diaeresis) stays as it is, which
  relates it to the same characters of the range. The first group is the capture
  \<open>$1\<close>: \<open>group1\<close> gives where it starts in the match and how long it is.
\<close>

fun group1 :: "node list \<Rightarrow> (nat \<times> nat) option" where
  "group1 [] = None"
| "group1 (Chr c # ns) = map_option (\<lambda>p. (Suc (fst p), snd p)) (group1 ns)"
| "group1 (Grp g # ns) = Some (0, length (concat (map literal g)))"

definition isLower :: "char \<Rightarrow> bool" where
  "isLower c =
     (let n = (of_char c :: nat)
      in (97 \<le> n \<and> n \<le> 122) \<or> (224 \<le> n \<and> n \<le> 254 \<and> n \<noteq> 247))"

definition canonicalize :: "char \<Rightarrow> char" where
  "canonicalize c = (if isLower c then char_of (of_char c - (32 :: nat)) else c)"

definition matches_at :: "string \<Rightarrow> string \<Rightarrow> bool" where
  "matches_at lit s \<longleftrightarrow>
     length lit \<le> length s \<and> map canonicalize (take (length lit) s) = map canonicalize lit"

text \<open>
  The replacement text for one match: \<open>$1\<close> stands for the first capture (and for
  itself in a pattern without a group); the template of the code has no other
  \<open>$\<close>.
\<close>

fun substitute :: "string \<Rightarrow> string option \<Rightarrow> string" where
  "substitute [] cap = []"
| "substitute [c] cap = [c]"
| "substitute (c # d # rest) cap =
     (if c = CHR ''$'' \<and> d = CHR ''1''
      then (case cap of Some t \<Rightarrow> t | None \<Rightarrow> ''$1'') @ substitute rest cap
      else c # substitute (d # rest) cap)"

definition capture1 :: "node list \<Rightarrow> string \<Rightarrow> string option" where
  "capture1 regex matched = map_option (\<lambda>p. take (snd p) (drop (fst p) matched)) (group1 regex)"

text \<open>
  \<^verbatim>\<open>s.replace(regex, template)\<close> with the flag \<open>g\<close>: the matches are taken from the
  left, each after the end of the one before; after an empty match the next character
  is copied.
\<close>

function replace_all :: "node list \<Rightarrow> string \<Rightarrow> string \<Rightarrow> string" where
  "replace_all regex template s =
     (let lit = concat (map literal regex); n = length lit
      in if matches_at lit s then
           substitute template (capture1 regex (take n s))
           @ (if n = 0 then (case s of [] \<Rightarrow> [] | c # cs \<Rightarrow> c # replace_all regex template cs)
              else replace_all regex template (drop n s))
         else (case s of [] \<Rightarrow> [] | c # cs \<Rightarrow> c # replace_all regex template cs))"
  by pat_completeness auto
termination
proof (relation "measure (\<lambda>(regex, template, s). length s)")
  show "wf (measure (\<lambda>(regex, template, s). length s))"
    by simp
next
  fix regex :: "node list" and template s :: string and lit n c cs
  assume "s = c # cs"
  then show "((regex, template, cs), regex, template, s)
        \<in> measure (\<lambda>(regex, template, s). length s)"
    by simp
next
  fix regex :: "node list" and template s :: string and lit n
  assume l: "lit = concat (map literal regex)" and n: "n = length lit"
    and m: "matches_at lit s" and z: "n \<noteq> 0"
  from m n have "n \<le> length s" by (simp add: matches_at_def)
  with z have "length s - n < length s" by arith
  then have "length (drop n s) < length s" by simp
  then show "((regex, template, drop n s), regex, template, s)
        \<in> measure (\<lambda>(regex, template, s). length s)"
    by simp
next
  fix regex :: "node list" and template s :: string and lit n c cs
  assume "s = c # cs"
  then show "((regex, template, cs), regex, template, s)
        \<in> measure (\<lambda>(regex, template, s). length s)"
    by simp
qed

declare replace_all.simps [simp del]

text \<open>
  \<^verbatim>\<open>terms.forEach(term => ...)\<close> of \<open>highlightText\<close>: a \<^verbatim>\<open>throw\<close> of the
  constructor ends the loop and the function.
\<close>

datatype 'a outcome = Returns 'a | Throws exn | Outside_model

fun highlight_terms :: "nat option \<Rightarrow> string list \<Rightarrow> string \<Rightarrow> string outcome" where
  "highlight_terms limit [] highlighted = Returns highlighted"
| "highlight_terms limit (term # terms) highlighted =
     (case RegExp_new limit (''('' @ escapeRegExp term @ '')'') of
        Compiled regex \<Rightarrow>
          highlight_terms limit terms (replace_all regex ''<mark>$1</mark>'' highlighted)
      | Rejected e \<Rightarrow> Throws e
      | Unmodelled \<Rightarrow> Outside_model)"

definition highlightText :: "nat option \<Rightarrow> string \<Rightarrow> string \<Rightarrow> string outcome" where
  "highlightText limit text query =
     highlight_terms limit (searchTerms query) (escapeHtml text)"



section \<open>The earlier revision of the search (script.js)\<close>

text \<open>
  The repository holds an earlier revision of the same handler. It differs in the terms
  (\<^verbatim>\<open>split(' ')\<close> and \<^verbatim>\<open>term.length > 0\<close>), in the scores (no tier for a
  title that starts with the term, 20 for a keyword), in having no early return, and in
  \<open>highlightText\<close>, which puts the term into the pattern as it is. Its definitions
  carry the suffix \<open>_v1\<close>.
\<close>

text \<open>\<^verbatim>\<open>s.split(' ')\<close>: the pieces between the single spaces.\<close>

fun split_space :: "string \<Rightarrow> string list" where
  "split_space [] = [[]]"
| "split_space (c # cs) =
     (if c = CHR '' '' then [] # split_space cs
      else (case split_space cs of
              piece # pieces \<Rightarrow> (c # piece) # pieces
            | [] \<Rightarrow> [[c]]))"

definition searchTerms_v1 :: "string \<Rightarrow> string list" where
  "searchTerms_v1 query = filter (\<lambda>term. length term > 0) (split_space (toLowerCase query))"

definition scoreTerm_v1 :: "string \<Rightarrow> string \<Rightarrow> string \<Rightarrow> string \<Rightarrow> int \<Rightarrow> string \<Rightarrow> int" where
  "scoreTerm_v1 titleLower descLower keywordsLower categoryLower score0 term =
     (let score1 = (if titleLower = term then score0 + 100
                    else if includesStr titleLower term then score0 + 50
                    else score0);
          score2 = (if includesStr descLower term then score1 + 30 else score1);
          score3 = (if includesStr keywordsLower term then score2 + 20 else score2);
          score4 = (if includesStr categoryLower term then score3 + 15 else score3)
      in score4)"

definition scoreItem_v1 :: "string list \<Rightarrow> SearchRecord \<Rightarrow> ScoredRecord" where
  "scoreItem_v1 terms item =
     (let titleLower = toLowerCase (title item);
          descLower = toLowerCase (description item);
          keywordsLower = toLowerCase (join '' '' (keywordList item));
          sc = foldl (scoreTerm_v1 titleLower descLower keywordsLower
                        (toLowerCase (category item))) 0 terms
      in \<lparr> title = title item, description = description item, category = category item,
           page = page item, keywordList = keywordList item, score = sc \<rparr>)"

definition searchContent_v1 :: "SearchRecord list \<Rightarrow> string \<Rightarrow> ScoredRecord list" where
  "searchContent_v1 searchData query =
     (let terms = searchTerms_v1 query
      in take 10
           (array_sort compareScore
             (filter (\<lambda>item. score item > 0)
               (map (scoreItem_v1 terms) searchData))))"

fun highlight_terms_v1 :: "nat option \<Rightarrow> string list \<Rightarrow> string \<Rightarrow> string outcome" where
  "highlight_terms_v1 limit [] highlighted = Returns highlighted"
| "highlight_terms_v1 limit (term # terms) highlighted =
     (case RegExp_new limit (''('' @ term @ '')'') of
        Compiled regex \<Rightarrow>
          highlight_terms_v1 limit terms (replace_all regex ''<mark>$1</mark>'' highlighted)
      | Rejected e \<Rightarrow> Throws e
      | Unmodelled \<Rightarrow> Outside_model)"

definition highlightText_v1 :: "nat option \<Rightarrow> string \<Rightarrow> string \<Rightarrow> string outcome" where
  "highlightText_v1 limit text query =
     highlight_terms_v1 limit (searchTerms_v1 query) (escapeHtml text)"

section \<open>Example inputs\<close>

text \<open>
  A stored text that is well-formed JSON and whose \<open>theme\<close> is an object with a
  property \<open>toString\<close>; an engine whose \<^verbatim>\<open>JSON.parse\<close> knows that text and
  the text \<open>null\<close> and rejects every other text; and a freshly loaded page
  (\<open>theme\<close> is \<open>light\<close>, \<open>preferences\<close> the empty object) in a browser that
  denies the access to the store.
\<close>

definition stored_object_theme :: string where
  \<open>stored_object_theme = ''{"theme":{"toString":0}}''\<close>

definition example_engine :: Engine where
  "example_engine =
     \<lparr> JSON_parse = (\<lambda>s. if s = ''null'' then Inr JNull
                          else if s = stored_object_theme
                          then Inr (JObj [(''theme'', JObj [(''toString'', JNum 0)])])
                          else Inl (SyntaxError ''Unexpected token'')),
       JSON_stringify = (\<lambda>v. Inr ''{}'') \<rparr>"

definition example_world :: World where
  "example_world =
     \<lparr> theme = JStr ''light'', preferences = JObj [], storage = None, quota = 0,
       prefers_dark = Some True, warnings = [], data_theme = None,
       dark_mode = False, theme_listener = False \<rparr>"

section \<open>Evaluation of the character functions\<close>

text \<open>
  The character classes read on the bits of a character (lowest bit first), for fast
  evaluation on literals.
\<close>

lemma isUpper_Char [code]:
  "isUpper (Char b0 b1 b2 b3 b4 b5 b6 b7) =
     (b6 \<and> \<not> b5 \<and>
      (if b7 then \<not> (b0 \<and> b1 \<and> b2 \<and> b4)
       else (b0 \<or> b1 \<or> b2 \<or> b3 \<or> b4) \<and> \<not> (b4 \<and> b3 \<and> (b2 \<or> (b1 \<and> b0)))))"
  by (cases b0; cases b1; cases b2; cases b3; cases b4; cases b5; cases b6; cases b7;
      simp add: isUpper_def)

lemma toLowerChar_Char [code]:
  "toLowerChar (Char b0 b1 b2 b3 b4 b5 b6 b7) =
     (if isUpper (Char b0 b1 b2 b3 b4 b5 b6 b7) then Char b0 b1 b2 b3 b4 True b6 b7
      else Char b0 b1 b2 b3 b4 b5 b6 b7)"
proof (cases "isUpper (Char b0 b1 b2 b3 b4 b5 b6 b7)")
  case True
  then have b5: "\<not> b5" by (simp add: isUpper_Char)
  have "(of_char (Char b0 b1 b2 b3 b4 False b6 b7) :: nat) + 32
        = of_char (Char b0 b1 b2 b3 b4 True b6 b7)"
    by simp
  then have "char_of ((of_char (Char b0 b1 b2 b3 b4 False b6 b7) :: nat) + 32)
        = Char b0 b1 b2 b3 b4 True b6 b7"
    by (simp only: char_of_char)
  with True b5 show ?thesis by (simp add: toLowerChar_def)
next
  case False
  then show ?thesis by (simp add: toLowerChar_def)
qed

lemma isWhiteSpace_Char [code]:
  "isWhiteSpace (Char b0 b1 b2 b3 b4 b5 b6 b7) =
     (\<not> b6 \<and> \<not> b4 \<and>
       (if b5 then \<not> b0 \<and> \<not> b1 \<and> \<not> b2 \<and> \<not> b3
        else \<not> b7 \<and> b3 \<and> (b0 \<or> b1 \<or> b2) \<and> \<not> (b1 \<and> b2)))"
  by (cases b0; cases b1; cases b2; cases b3; cases b4; cases b5; cases b6; cases b7;
      simp add: isWhiteSpace_def)

lemma isUpper_toLowerChar: "\<not> isUpper (toLowerChar c)"
proof (cases c)
  case (Char b0 b1 b2 b3 b4 b5 b6 b7)
  show ?thesis
  proof (cases "isUpper c")
    case True
    then show ?thesis by (simp add: Char toLowerChar_Char) (simp add: isUpper_Char)
  next
    case False
    then show ?thesis by (simp add: toLowerChar_def)
  qed
qed

lemma isWhiteSpace_toLowerChar: "isWhiteSpace (toLowerChar c) = isWhiteSpace c"
proof (cases c)
  case (Char b0 b1 b2 b3 b4 b5 b6 b7)
  show ?thesis
  proof (cases "isUpper c")
    case True
    then have "b6" by (simp add: Char isUpper_Char)
    then show ?thesis by (simp add: Char toLowerChar_Char isWhiteSpace_Char)
  next
    case False
    then show ?thesis by (simp add: toLowerChar_def)
  qed
qed

section \<open>Strings\<close>

lemma startsWith_prefix: "startsWith s t \<longleftrightarrow> prefix t s"
  unfolding startsWith_def by (metis append_eq_conv_conj prefix_def)

lemma includesStr_sublist: "includesStr s t \<longleftrightarrow> sublist t s"
  by (induction s) (auto simp: startsWith_prefix sublist_Cons_right)

subsection \<open>The split at white space\<close>

lemma split_ws_Nil: "split_ws [] = [[]]"
  by (simp add: split_ws.simps)

lemma split_ws_not_Nil: "split_ws s \<noteq> []"
  by (subst split_ws.simps) (simp add: Let_def)

lemma split_ws_Cons_ws:
  "isWhiteSpace c \<Longrightarrow> split_ws (c # cs) = [] # split_ws (dropWhile isWhiteSpace cs)"
  by (subst split_ws.simps) simp

lemma split_ws_Cons_non_ws:
  "\<not> isWhiteSpace c \<Longrightarrow>
   split_ws (c # cs) = (c # hd (split_ws cs)) # tl (split_ws cs)"
  by (subst split_ws.simps, subst (2 3) split_ws.simps) (simp add: Let_def)

lemma split_ws_dropWhile:
  "filter (\<lambda>t. t \<noteq> []) (split_ws (dropWhile isWhiteSpace cs))
   = filter (\<lambda>t. t \<noteq> []) (split_ws cs)"
proof (induction cs)
  case Nil
  then show ?case by simp
next
  case (Cons c cs)
  then show ?case by (simp add: split_ws_Cons_ws)
qed

lemma runs_acc_split_ws:
  "runs_acc cur s = filter (\<lambda>t. t \<noteq> []) ((cur @ hd (split_ws s)) # tl (split_ws s))"
proof (induction s arbitrary: cur)
  case Nil
  then show ?case by (simp add: split_ws_Nil)
next
  case (Cons c cs)
  show ?case
  proof (cases "isWhiteSpace c")
    case True
    have "runs_acc [] cs = filter (\<lambda>t. t \<noteq> []) (split_ws cs)"
      using Cons.IH [of "[]"] split_ws_not_Nil [of cs] by (cases "split_ws cs") auto
    then show ?thesis using True
      by (simp add: split_ws_Cons_ws split_ws_dropWhile)
  next
    case False
    then show ?thesis
      by (simp add: split_ws_Cons_non_ws Cons.IH)
  qed
qed

lemma runs_split_ws: "runs_acc [] s = filter (\<lambda>t. t \<noteq> []) (split_ws s)"
  using runs_acc_split_ws [of "[]" s] split_ws_not_Nil [of s]
  by (cases "split_ws s") auto

lemma searchTerms_tokenize: "searchTerms q = tokenize q"
proof -
  have "filter (\<lambda>t. \<not> length t \<le> 1) (filter (\<lambda>t. t \<noteq> []) xs)
        = filter (\<lambda>t. length t > 1) xs" for xs :: "string list"
    by (induction xs) auto
  then show ?thesis
    by (simp add: searchTerms_def tokenize_def runs_split_ws)
qed

lemma set_split_ws:
  "set (split_ws s) =
     (if dropWhile (\<lambda>c. \<not> isWhiteSpace c) s = []
      then {takeWhile (\<lambda>c. \<not> isWhiteSpace c) s}
      else insert (takeWhile (\<lambda>c. \<not> isWhiteSpace c) s)
             (set (split_ws (dropWhile isWhiteSpace (dropWhile (\<lambda>c. \<not> isWhiteSpace c) s)))))"
  by (subst split_ws.simps) (simp add: Let_def)

lemma split_ws_chars:
  "t \<in> set (split_ws s) \<Longrightarrow> c \<in> set t \<Longrightarrow> c \<in> set s \<and> \<not> isWhiteSpace c"
proof (induction s arbitrary: t rule: split_ws.induct)
  case (1 s)
  let ?piece = "takeWhile (\<lambda>c. \<not> isWhiteSpace c) s"
  let ?rest = "dropWhile (\<lambda>c. \<not> isWhiteSpace c) s"
  have piece: "c \<in> set s \<and> \<not> isWhiteSpace c" if "c \<in> set ?piece"
    using that set_takeWhileD [of c "\<lambda>c. \<not> isWhiteSpace c" s] by simp
  from "1.prems"(1)
  have "t = ?piece \<or> (?rest \<noteq> [] \<and> t \<in> set (split_ws (dropWhile isWhiteSpace ?rest)))"
    unfolding set_split_ws [of s] by (simp split: if_splits)
  then show ?case
  proof
    assume "t = ?piece"
    with piece "1.prems"(2) show ?thesis by simp
  next
    assume a: "?rest \<noteq> [] \<and> t \<in> set (split_ws (dropWhile isWhiteSpace ?rest))"
    then have "c \<in> set (dropWhile isWhiteSpace ?rest) \<and> \<not> isWhiteSpace c"
      using "1.IH" [OF refl refl] "1.prems"(2) by blast
    then have "c \<in> set ?rest" "\<not> isWhiteSpace c"
      using set_dropWhileD [of c isWhiteSpace ?rest] by simp_all
    then show ?thesis
      using set_dropWhileD [of c "\<lambda>c. \<not> isWhiteSpace c" s] by simp
  qed
qed

lemma searchTerms_chars:
  assumes "t \<in> set (searchTerms q)"
  shows "length t \<ge> 2 \<and> (\<forall>c \<in> set t. \<not> isUpper c \<and> \<not> isWhiteSpace c)"
proof -
  from assms have len: "length t > 1" and mem: "t \<in> set (split_ws (toLowerCase q))"
    by (simp_all add: searchTerms_def)
  have "\<not> isUpper c \<and> \<not> isWhiteSpace c" if "c \<in> set t" for c
  proof -
    from split_ws_chars [OF mem that]
    have "c \<in> set (toLowerCase q)" "\<not> isWhiteSpace c" by simp_all
    then show ?thesis by (auto simp: toLowerCase_def isUpper_toLowerChar)
  qed
  with len show ?thesis by auto
qed

lemma split_ws_all_ws:
  "\<forall>c \<in> set s. isWhiteSpace c \<Longrightarrow> t \<in> set (split_ws s) \<Longrightarrow> t = []"
  using split_ws_chars [of t s] by (cases t) auto

lemma searchTerms_all_ws:
  assumes "\<forall>c \<in> set q. isWhiteSpace c"
  shows "searchTerms q = []"
proof -
  from assms have "\<forall>c \<in> set (toLowerCase q). isWhiteSpace c"
    by (simp add: toLowerCase_def isWhiteSpace_toLowerChar)
  then have "\<forall>t \<in> set (split_ws (toLowerCase q)). t = []"
    using split_ws_all_ws by blast
  then show ?thesis
    by (auto simp: searchTerms_def filter_empty_conv)
qed

section \<open>Scoring\<close>

lemma scoreTerm_add:
  "scoreTerm (toLowerCase (title r)) (toLowerCase (description r))
     (toLowerCase (join '' '' (keywordList r))) (toLowerCase (category r)) s t
   = s + term_score r t"
  by (simp add: scoreTerm_def term_score_def title_tier_def Let_def
      startsWith_prefix includesStr_sublist)

lemma foldl_scoreTerm:
  "foldl (scoreTerm (toLowerCase (title r)) (toLowerCase (description r))
     (toLowerCase (join '' '' (keywordList r))) (toLowerCase (category r))) s ts
   = s + sum_list (map (term_score r) ts)"
  by (induction ts arbitrary: s) (simp_all add: scoreTerm_add)

section \<open>Sorting\<close>

lemma set_sort_insert: "set (sort_insert cmp x ys) = insert x (set ys)"
  by (induction ys) auto

lemma set_array_sort: "set (array_sort cmp xs) = set xs"
  by (induction xs) (auto simp: set_sort_insert)

lemma sort_insert_insort:
  "sort_insert compareScore x ys = insort_key (\<lambda>r. - score r) x ys"
  by (induction ys) (auto simp: compareScore_def)

lemma array_sort_sort_key:
  "array_sort compareScore xs = sort_key (\<lambda>r. - score r) xs"
  by (induction xs) (simp_all add: sort_insert_insort sort_key_def)

lemma sorted_array_sort:
  "sorted_wrt (\<lambda>a b. score a \<ge> score b) (array_sort compareScore xs)"
proof -
  have "sorted (map (\<lambda>r. - score r) (array_sort compareScore xs))"
    by (simp add: array_sort_sort_key)
  then show ?thesis
    by (simp add: sorted_map sorted_wrt_iff_nth_less)
qed

lemma stable_array_sort:
  "filter (\<lambda>r. score r = s) (array_sort compareScore xs) = filter (\<lambda>r. score r = s) xs"
proof -
  have "filter (\<lambda>r. - score r = - s) (sort_key (\<lambda>r. - score r) xs)
        = filter (\<lambda>r. - score r = - s) xs"
    by (rule sort_key_stable)
  then show ?thesis by (simp add: array_sort_sort_key)
qed

lemma is_stable_sort_array_sort:
  "is_stable_sort compareScore xs (array_sort compareScore xs)"
proof -
  have "mset (array_sort compareScore xs) = mset xs"
    by (simp add: array_sort_sort_key)
  moreover have "sorted_wrt (\<lambda>a b. compareScore a b \<le> 0) (array_sort compareScore xs)"
    using sorted_array_sort [of xs] by (simp add: compareScore_def)
  moreover have "filter (\<lambda>y. compareScore x y = 0) (array_sort compareScore xs)
        = filter (\<lambda>y. compareScore x y = 0) xs" for x
    using stable_array_sort [of "score x" xs] by (simp add: compareScore_def)
  ultimately show ?thesis by (simp add: is_stable_sort_def)
qed

lemma is_stable_sort_unique:
  assumes "is_stable_sort compareScore xs ys"
  shows "ys = array_sort compareScore xs"
proof -
  from assms have m: "mset ys = mset xs"
    and s: "sorted_wrt (\<lambda>a b. compareScore a b \<le> 0) ys"
    and f: "\<And>x. filter (\<lambda>y. compareScore x y = 0) ys = filter (\<lambda>y. compareScore x y = 0) xs"
    by (simp_all add: is_stable_sort_def)
  have "sort_key (\<lambda>r. - score r) xs = ys"
  proof (rule properties_for_sort_key)
    show "mset ys = mset xs" by (rule m)
  next
    fix k assume "k \<in> set ys"
    have "(\<lambda>x. - score k = - score x) = (\<lambda>y. compareScore k y = 0)"
      by (auto simp: compareScore_def)
    then show "filter (\<lambda>x. - score k = - score x) ys = filter (\<lambda>x. - score k = - score x) xs"
      using f [of k] by simp
  next
    from s show "sorted (map (\<lambda>r. - score r) ys)"
      by (simp add: sorted_map compareScore_def)
  qed
  then show ?thesis by (simp add: array_sort_sort_key)
qed

lemma prefix_filter_take: "prefix (filter P (take n xs)) (filter P xs)"
proof -
  have "filter P xs = filter P (take n xs) @ filter P (drop n xs)"
    by (simp flip: filter_append)
  then show ?thesis by (rule prefixI)
qed

lemma prefix_filter_pos:
  "prefix (filter (\<lambda>r. score r = s) (filter (\<lambda>item. score item > 0) xs))
          (filter (\<lambda>r. score r = (s::int)) xs)"
proof (cases "s > 0")
  case True
  then have "filter (\<lambda>r. score r = s) (filter (\<lambda>item. score item > 0) xs)
             = filter (\<lambda>r. score r = s) xs"
    by (induction xs) auto
  then show ?thesis by simp
next
  case False
  then have "filter (\<lambda>r. score r = s) (filter (\<lambda>item. score item > 0) xs) = []"
    by (induction xs) auto
  then show ?thesis by simp
qed

lemma sorted_wrt_take: "sorted_wrt R xs \<Longrightarrow> sorted_wrt R (take n xs)"
proof -
  assume "sorted_wrt R xs"
  then have "sorted_wrt R (take n xs @ drop n xs)" by simp
  then show ?thesis unfolding sorted_wrt_append by simp
qed

section \<open>The split on code units\<close>

lemma split_ws16_Nil: "split_ws16 [] = [[]]"
  by (simp add: split_ws16.simps)

lemma split_ws16_not_Nil: "split_ws16 s \<noteq> []"
  by (subst split_ws16.simps) (simp add: Let_def)

lemma split_ws16_Cons_ws:
  "isWhiteSpace16 c \<Longrightarrow> split_ws16 (c # cs) = [] # split_ws16 (dropWhile isWhiteSpace16 cs)"
  by (subst split_ws16.simps) simp

lemma split_ws16_Cons_non_ws:
  "\<not> isWhiteSpace16 c \<Longrightarrow>
   split_ws16 (c # cs) = (c # hd (split_ws16 cs)) # tl (split_ws16 cs)"
  by (subst split_ws16.simps, subst (2 3) split_ws16.simps) (simp add: Let_def)

lemma split_ws16_dropWhile:
  "filter (\<lambda>t. t \<noteq> []) (split_ws16 (dropWhile isWhiteSpace16 cs))
   = filter (\<lambda>t. t \<noteq> []) (split_ws16 cs)"
proof (induction cs)
  case Nil
  then show ?case by simp
next
  case (Cons c cs)
  then show ?case by (simp add: split_ws16_Cons_ws)
qed

lemma runs_acc16_split_ws16:
  "runs_acc16 cur s = filter (\<lambda>t. t \<noteq> []) ((cur @ hd (split_ws16 s)) # tl (split_ws16 s))"
proof (induction s arbitrary: cur)
  case Nil
  then show ?case by (simp add: split_ws16_Nil)
next
  case (Cons c cs)
  show ?case
  proof (cases "isWhiteSpace16 c")
    case True
    have "runs_acc16 [] cs = filter (\<lambda>t. t \<noteq> []) (split_ws16 cs)"
      using Cons.IH [of "[]"] split_ws16_not_Nil [of cs] by (cases "split_ws16 cs") auto
    then show ?thesis using True
      by (simp add: split_ws16_Cons_ws split_ws16_dropWhile)
  next
    case False
    then show ?thesis
      by (simp add: split_ws16_Cons_non_ws Cons.IH)
  qed
qed

lemma runs16_split_ws16: "runs_acc16 [] s = filter (\<lambda>t. t \<noteq> []) (split_ws16 s)"
  using runs_acc16_split_ws16 [of "[]" s] split_ws16_not_Nil [of s]
  by (cases "split_ws16 s") auto

lemma searchTerms16_tokenize16: "searchTerms16 lower q = tokenize16 lower q"
proof -
  have "filter (\<lambda>t. \<not> length t \<le> 1) (filter (\<lambda>t. t \<noteq> []) xs)
        = filter (\<lambda>t. length t > 1) xs" for xs :: "nat list list"
    by (induction xs) auto
  then show ?thesis
    by (simp add: searchTerms16_def tokenize16_def runs16_split_ws16)
qed

lemma set_split_ws16:
  "set (split_ws16 s) =
     (if dropWhile (\<lambda>c. \<not> isWhiteSpace16 c) s = []
      then {takeWhile (\<lambda>c. \<not> isWhiteSpace16 c) s}
      else insert (takeWhile (\<lambda>c. \<not> isWhiteSpace16 c) s)
             (set (split_ws16
                (dropWhile isWhiteSpace16 (dropWhile (\<lambda>c. \<not> isWhiteSpace16 c) s)))))"
  by (subst split_ws16.simps) (simp add: Let_def)

text \<open>Every piece of the split is a stretch of the string, free of white space.\<close>

lemma split_ws16_piece:
  "t \<in> set (split_ws16 s) \<Longrightarrow> sublist t s \<and> (\<forall>c \<in> set t. \<not> isWhiteSpace16 c)"
proof (induction s arbitrary: t rule: split_ws16.induct)
  case (1 s)
  let ?piece = "takeWhile (\<lambda>c. \<not> isWhiteSpace16 c) s"
  let ?rest = "dropWhile (\<lambda>c. \<not> isWhiteSpace16 c) s"
  have piece: "sublist ?piece s \<and> (\<forall>c \<in> set ?piece. \<not> isWhiteSpace16 c)"
  proof
    have "prefix ?piece s"
      by (rule takeWhile_is_prefix)
    then show "sublist ?piece s" by (rule prefix_imp_sublist)
  next
    show "\<forall>c \<in> set ?piece. \<not> isWhiteSpace16 c"
      using set_takeWhileD [of _ "\<lambda>c. \<not> isWhiteSpace16 c" s] by blast
  qed
  from "1.prems"
  have "t = ?piece \<or> (?rest \<noteq> [] \<and> t \<in> set (split_ws16 (dropWhile isWhiteSpace16 ?rest)))"
    unfolding set_split_ws16 [of s] by (simp split: if_splits)
  then show ?case
  proof
    assume "t = ?piece"
    with piece show ?thesis by simp
  next
    assume a: "?rest \<noteq> [] \<and> t \<in> set (split_ws16 (dropWhile isWhiteSpace16 ?rest))"
    then have ih: "sublist t (dropWhile isWhiteSpace16 ?rest)
        \<and> (\<forall>c \<in> set t. \<not> isWhiteSpace16 c)"
      using "1.IH" [OF refl refl] by blast
    have "suffix (dropWhile isWhiteSpace16 ?rest) ?rest"
      by (rule suffix_dropWhile)
    moreover have "suffix ?rest s"
      by (rule suffix_dropWhile)
    ultimately have "suffix (dropWhile isWhiteSpace16 ?rest) s"
      by (rule suffix_order.trans)
    then have "sublist (dropWhile isWhiteSpace16 ?rest) s"
      by (rule suffix_imp_sublist)
    with ih have "sublist t s"
      using sublist_order.order.trans by blast
    with ih show ?thesis by simp
  qed
qed

lemma split_ws16_no_ws: "\<forall>c \<in> set s. \<not> isWhiteSpace16 c \<Longrightarrow> split_ws16 s = [s]"
  by (subst split_ws16.simps) (simp add: Let_def)

lemma split_ws16_all_ws:
  assumes "\<forall>c \<in> set s. isWhiteSpace16 c" and "t \<in> set (split_ws16 s)"
  shows "t = []"
proof (cases t)
  case Nil
  then show ?thesis .
next
  case (Cons c cs)
  with assms(2) have "c \<in> set s" and "\<not> isWhiteSpace16 c"
    using split_ws16_piece [of t s] set_mono_sublist [of t s] by auto
  with assms(1) show ?thesis by blast
qed

text \<open>The lowercase table of the code units this development evaluates.\<close>

lemma toLowerUnit16_stable: "toLowerUnit16 (toLowerUnit16 c) = toLowerUnit16 c"
  by (simp add: toLowerUnit16_def)

lemma toLowerUnit16_white: "isWhiteSpace16 (toLowerUnit16 c) = isWhiteSpace16 c"
  by (auto simp: toLowerUnit16_def isWhiteSpace16_def)

lemma toLowerCase16_white:
  "\<forall>c \<in> set s. isWhiteSpace16 c \<Longrightarrow> \<forall>c \<in> set (toLowerCase16 s). isWhiteSpace16 c"
  by (simp add: toLowerCase16_def toLowerUnit16_white)

lemma toLowerCase16_stable: "c \<in> set (toLowerCase16 s) \<Longrightarrow> toLowerCase16 [c] = [c]"
  by (auto simp: toLowerCase16_def toLowerUnit16_stable)

section \<open>The preference store\<close>

lemma loadPreferences_catch_returns:
  "loadPreferences_catch e w =
     (Inr (), w\<lparr> warnings := warnings w @ [''Could not load preferences: '' @ message e],
                  preferences := JObj [] \<rparr>)"
  by (simp add: loadPreferences_catch_def console_warn_def js_bind_def)

lemma savePreferences_catch_returns:
  "savePreferences_catch e w =
     (Inr (), w\<lparr> warnings := warnings w @ [''Could not save preferences: '' @ message e] \<rparr>)"
  by (simp add: savePreferences_catch_def console_warn_def)

lemma loadPreferences_returns: "\<exists>w'. loadPreferences eng w = (Inr (), w')"
proof (cases "loadPreferences_try eng w")
  case (Pair r w1)
  then show ?thesis
    by (cases r) (simp_all add: loadPreferences_def try_catch_def loadPreferences_catch_returns)
qed

lemma savePreferences_returns: "\<exists>w'. savePreferences eng w = (Inr (), w')"
proof (cases "savePreferences_try eng w")
  case (Pair r w1)
  then show ?thesis
    by (cases r) (simp_all add: savePreferences_def try_catch_def savePreferences_catch_returns)
qed

lemma loadPreferences_try_theme_unchanged:
  "loadPreferences_try eng w = (Inl e, w1) \<Longrightarrow> theme w1 = theme w"
  by (auto simp: loadPreferences_try_def js_bind_def js_return_def js_lift_def
      localStorage_getItem_def split: option.splits sum.splits if_splits prod.splits)

lemma loadPreferences_try_readable:
  "loadPreferences_try eng w = (Inr u, w1) \<Longrightarrow> \<exists>t. get_theme (preferences w1) = Inr t"
  by (auto simp: loadPreferences_try_def js_bind_def js_return_def js_lift_def
      localStorage_getItem_def split: option.splits sum.splits if_splits prod.splits)

lemma loadPreferences_readable:
  assumes "loadPreferences eng w = (r, w')"
  shows "\<exists>t. get_theme (preferences w') = Inr t"
proof (cases "loadPreferences_try eng w")
  case (Pair r1 w1)
  show ?thesis
  proof (cases r1)
    case (Inl e)
    with Pair assms have "preferences w' = JObj []"
      by (auto simp: loadPreferences_def try_catch_def loadPreferences_catch_returns)
    then show ?thesis by simp
  next
    case (Inr u)
    with Pair assms have "w' = w1"
      by (simp add: loadPreferences_def try_catch_def)
    with Pair Inr show ?thesis
      using loadPreferences_try_readable by blast
  qed
qed

lemma savePreferences_try_unchanged:
  "savePreferences_try eng w = (Inl e, w1) \<Longrightarrow> theme w1 = theme w \<and> storage w1 = storage w"
  by (auto simp: savePreferences_try_def js_bind_def localStorage_setItem_def Let_def
      split: option.splits sum.splits if_splits prod.splits)

lemma applyTheme_converts:
  "ToString (theme w) = Inr s \<Longrightarrow>
   applyTheme w = (Inr (), w\<lparr> data_theme := Some s, dark_mode := (theme w = JStr ''dark'') \<rparr>)"
  by (simp add: applyTheme_def)

lemma applyTheme_throws: "ToString (theme w) = Inl e \<Longrightarrow> applyTheme w = (Inl e, w)"
  by (simp add: applyTheme_def)

lemma setupSystemThemeListener_returns:
  "get_theme (preferences w) = Inr t \<Longrightarrow> \<exists>w'. setupSystemThemeListener w = (Inr (), w')"
  by (simp add: setupSystemThemeListener_def split: option.splits)

text \<open>
  \<open>init\<close> after \<open>loadPreferences\<close>: it returns when the theme that was loaded
  converts to a string, and throws what the conversion throws when it does not.
\<close>

lemma init_returns_if:
  assumes l: "loadPreferences eng w = (Inr (), w1)" and c: "ToString (theme w1) = Inr s"
  shows "\<exists>w'. init eng w = (Inr (), w')"
proof -
  let ?w2 = "w1\<lparr> data_theme := Some s, dark_mode := (theme w1 = JStr ''dark'') \<rparr>"
  obtain t where "get_theme (preferences w1) = Inr t"
    using loadPreferences_readable [OF l] by blast
  then obtain w3 where "setupSystemThemeListener ?w2 = (Inr (), w3)"
    using setupSystemThemeListener_returns [of ?w2 t] by auto
  with l show ?thesis
    by (simp add: init_def js_bind_def applyTheme_converts [OF c])
qed

lemma init_throws_if:
  assumes l: "loadPreferences eng w = (Inr (), w1)" and c: "ToString (theme w1) = Inl e"
  shows "init eng w = (Inl e, w1)"
  using l by (simp add: init_def js_bind_def applyTheme_throws [OF c])

lemma toggleTheme_returns: "\<exists>w'. toggleTheme eng w = (Inr (), w')"
proof -
  let ?w1 = "w\<lparr> theme := (if theme w = JStr ''light'' then JStr ''dark'' else JStr ''light'') \<rparr>"
  obtain s where c: "ToString (theme ?w1) = Inr s"
    by (cases "theme w = JStr ''light''") simp_all
  show ?thesis
    using savePreferences_returns
    by (simp add: toggleTheme_def js_bind_def applyTheme_converts [OF c])
qed

text \<open>
  What holds of the claim about the preference store: \<open>loadPreferences\<close> and
  \<open>savePreferences\<close> return whatever the store and the engine do, and so does
  \<open>toggleTheme\<close>; a failure in the body of a \<^verbatim>\<open>try\<close> is logged once and
  leaves \<open>preferences\<close> empty (on loading), the theme and the store as they were.
\<close>

lemma preference_access_contained:
  "(\<exists>w'. loadPreferences eng w = (Inr (), w'))
   \<and> (\<exists>w'. savePreferences eng w = (Inr (), w'))
   \<and> (\<exists>w'. toggleTheme eng w = (Inr (), w'))
   \<and> (\<forall>e w1. loadPreferences_try eng w = (Inl e, w1) \<longrightarrow>
         loadPreferences eng w =
           (Inr (), w1\<lparr> warnings := warnings w1 @ [''Could not load preferences: '' @ message e],
                        preferences := JObj [] \<rparr>)
         \<and> theme w1 = theme w)
   \<and> (\<forall>e w1. savePreferences_try eng w = (Inl e, w1) \<longrightarrow>
         savePreferences eng w =
           (Inr (), w1\<lparr> warnings := warnings w1 @ [''Could not save preferences: '' @ message e] \<rparr>)
         \<and> theme w1 = theme w \<and> storage w1 = storage w)"
proof -
  have 1: "loadPreferences eng w =
           (Inr (), w1\<lparr> warnings := warnings w1 @ [''Could not load preferences: '' @ message e],
                        preferences := JObj [] \<rparr>)
         \<and> theme w1 = theme w"
    if "loadPreferences_try eng w = (Inl e, w1)" for e w1
    using that loadPreferences_try_theme_unchanged [OF that]
    by (simp add: loadPreferences_def try_catch_def loadPreferences_catch_returns)
  have 2: "savePreferences eng w =
           (Inr (), w1\<lparr> warnings := warnings w1 @ [''Could not save preferences: '' @ message e] \<rparr>)
         \<and> theme w1 = theme w \<and> storage w1 = storage w"
    if "savePreferences_try eng w = (Inl e, w1)" for e w1
    using that savePreferences_try_unchanged [OF that]
    by (simp add: savePreferences_def try_catch_def savePreferences_catch_returns)
  from 1 2 show ?thesis
    using loadPreferences_returns [of eng w] savePreferences_returns [of eng w]
      toggleTheme_returns [of eng w]
    by blast
qed

text \<open>
  The stored object theme passes \<open>loadPreferences\<close> without a warning and becomes
  \<open>theme\<close>.
\<close>

lemma loadPreferences_stored_object_theme:
  "loadPreferences example_engine
     (example_world\<lparr> storage := Some [(STORAGE_KEY, stored_object_theme)] \<rparr>) =
   (Inr (), example_world
      \<lparr> theme := JObj [(''toString'', JNum 0)],
        preferences := JObj [(''theme'', JObj [(''toString'', JNum 0)])],
        storage := Some [(STORAGE_KEY, stored_object_theme)] \<rparr>)"
  by (simp add: loadPreferences_def try_catch_def loadPreferences_try_def js_bind_def
      js_lift_def localStorage_getItem_def get_prop_def stored_object_theme_def
      example_world_def example_engine_def)

lemma loadPreferences_examples:
  "loadPreferences example_engine example_world =
     (Inr (), example_world
        \<lparr> warnings := [''Could not load preferences: The operation is insecure''] \<rparr>)
   \<and> loadPreferences example_engine
        (example_world\<lparr> storage := Some [(STORAGE_KEY, ''{oops'')] \<rparr>) =
     (Inr (), example_world
        \<lparr> storage := Some [(STORAGE_KEY, ''{oops'')],
          warnings := [''Could not load preferences: Unexpected token''] \<rparr>)
   \<and> loadPreferences example_engine
        (example_world\<lparr> storage := Some [(STORAGE_KEY, ''null'')] \<rparr>) =
     (Inr (), example_world
        \<lparr> storage := Some [(STORAGE_KEY, ''null'')],
          warnings := [''Could not load preferences: '' @
            ''Cannot read properties of null (reading 'theme')''] \<rparr>)
   \<and> savePreferences example_engine (example_world\<lparr> storage := Some [] \<rparr>) =
     (Inr (), example_world
        \<lparr> preferences := JObj [(''theme'', JStr ''light'')], storage := Some [],
          warnings := [''Could not save preferences: The quota has been exceeded''] \<rparr>)"
  by (simp add: loadPreferences_def savePreferences_def try_catch_def
      loadPreferences_try_def savePreferences_try_def loadPreferences_catch_returns
      savePreferences_catch_returns js_bind_def js_lift_def localStorage_getItem_def
      localStorage_setItem_def storage_size_def STORAGE_KEY_def set_prop_def
      stored_object_theme_def example_world_def example_engine_def)

section \<open>Patterns and marking\<close>

lemma isLower_Char [code]:
  "isLower (Char b0 b1 b2 b3 b4 b5 b6 b7) =
     (b6 \<and> b5 \<and>
      (if b7 then \<not> (b0 \<and> b1 \<and> b2 \<and> b4)
       else (b0 \<or> b1 \<or> b2 \<or> b3 \<or> b4) \<and> \<not> (b4 \<and> b3 \<and> (b2 \<or> (b1 \<and> b0)))))"
  by (cases b0; cases b1; cases b2; cases b3; cases b4; cases b5; cases b6; cases b7;
      simp add: isLower_def)

lemma canonicalize_Char [code]:
  "canonicalize (Char b0 b1 b2 b3 b4 b5 b6 b7) =
     (if isLower (Char b0 b1 b2 b3 b4 b5 b6 b7) then Char b0 b1 b2 b3 b4 False b6 b7
      else Char b0 b1 b2 b3 b4 b5 b6 b7)"
proof (cases "isLower (Char b0 b1 b2 b3 b4 b5 b6 b7)")
  case True
  then have b5: "b5" by (simp add: isLower_Char)
  have "(of_char (Char b0 b1 b2 b3 b4 True b6 b7) :: nat) - 32
        = of_char (Char b0 b1 b2 b3 b4 False b6 b7)"
    by simp
  then have "char_of ((of_char (Char b0 b1 b2 b3 b4 True b6 b7) :: nat) - 32)
        = Char b0 b1 b2 b3 b4 False b6 b7"
    by (simp only: char_of_char)
  with True b5 show ?thesis by (simp add: canonicalize_def)
next
  case False
  then show ?thesis by (simp add: canonicalize_def)
qed






lemma literal_Chr: "concat (map (literal \<circ> Chr) t) = t"
  by (induction t) simp_all

lemma literal_map_Chr: "concat (map literal (map Chr t)) = t"
  by (simp add: literal_Chr)











section \<open>Where the earlier revision differs\<close>

text \<open>
  On the record "Pomodoro Technique", which both revisions hold: the earlier revision
  gives the title that starts with the term 50, it takes a single letter as a term, and
  its \<open>highlightText\<close> throws on a term with an open parenthesis.
\<close>

lemma searchContent_v1_pomodoro:
  "map score (searchContent_v1
     [\<lparr> title = ''Pomodoro Technique'',
        description = ''Study for 25 minutes then 5-minute break'',
        category = ''High School'', page = ''highschool.html'',
        keywordList = [''focus'', ''timer'', ''productivity'', ''breaks''] \<rparr>] ''pomodoro'')
   = [50]"
  by code_simp

lemma searchContent_v1_single_letter:
  "searchTerms_v1 ''p'' = [''p'']
   \<and> map score (searchContent_v1
     [\<lparr> title = ''Pomodoro Technique'',
        description = ''Study for 25 minutes then 5-minute break'',
        category = ''High School'', page = ''highschool.html'',
        keywordList = [''focus'', ''timer'', ''productivity'', ''breaks''] \<rparr>] ''p'')
   = [70]"
  by code_simp

lemma highlightText_v1_throws:
  "highlightText_v1 None ''Mind Maps'' ''(map'' = Throws (SyntaxError ''Unterminated group'')"
  by code_simp

lemma highlightText_escapes:
  "highlightText None ''f(x) = a*b'' ''F(X a*b''
   = Returns ''<mark>f(x</mark>) = <mark>a*b</mark>''"
  by code_simp

section \<open>The catalog, evaluated\<close>

lemma searchTerms_pomodoro: "searchTerms ''pomodoro'' = [''pomodoro'']"
  by code_simp

lemma searchContent_pomodoro:
  "searchContent loadSearchData ''pomodoro'' =
     [\<lparr> title = ''Pomodoro Technique'',
        description = ''Study for 25 minutes then 5-minute break'',
        category = ''High School'', page = ''highschool.html'',
        keywordList = [''focus'', ''timer'', ''productivity'', ''breaks''], score = 75 \<rparr>,
      \<lparr> title = ''Academic Balance'',
        description = ''Combine mental breaks with focused study sessions'',
        category = ''University'', page = ''university.html'',
        keywordList = [''balance'', ''wellness'', ''breaks'', ''pomodoro''], score = 25 \<rparr>]"
  by code_simp

lemma searchContent_er:
  "map (\<lambda>r. (title r, score r)) (searchContent loadSearchData ''er'') =
     [(''Citation Managers'', 120), (''Career Mapping'', 105), (''Mock Interviews'', 105),
      (''Past Papers'', 80), (''Study Groups'', 55), (''Portfolio Building'', 55),
      (''Digital Literacy'', 50), (''Research Databases'', 45), (''Thesis Planning'', 45),
      (''Mind Maps'', 30)]"
  by code_simp

lemma scored_er:
  "map (\<lambda>r. (title r, score r))
     (filter (\<lambda>r. 0 < score r) (map (scoreItem (searchTerms ''er'')) loadSearchData)) =
     [(''Mind Maps'', 30), (''Pomodoro Technique'', 25), (''Study Groups'', 55),
      (''Past Papers'', 80), (''Career Mapping'', 105), (''Mock Interviews'', 105),
      (''Digital Literacy'', 50), (''Portfolio Building'', 55), (''Research Databases'', 45),
      (''Citation Managers'', 120), (''Critical Reading'', 15), (''Thesis Planning'', 45),
      (''Academic Balance'', 15)]"
  by code_simp

section \<open>The claims\<close>

text \<open>
  C1. For every record and every sequence of terms, the score that the callback of
  \<open>searchContent\<close> computes is the sum over the terms of what each term adds on its
  own: 100 when the term is the lowercased title, else 75 when the lowercased title
  starts with it, else 50 when the lowercased title contains it; and, whatever the
  title tier, 30 when the lowercased description contains it, 25 when the lowercased
  keywords joined by spaces contain it, 15 when the lowercased category contains it.
  A term takes one title tier at most: its title part is 0, 50, 75 or 100. Every record
  that \<open>searchContent\<close> returns is a catalog record scored in this way on the terms
  of the query.
\<close>

theorem scoreItem_is_sum_of_term_scores:
  "score (scoreItem terms r) = sum_list (map (term_score r) terms)
   \<and> title_tier r t \<in> {0, 50, 75, 100}
   \<and> set (searchContent sd q) \<subseteq> scoreItem (searchTerms q) ` set sd"
proof -
  have "set (searchContent sd q) \<subseteq> scoreItem (searchTerms q) ` set sd"
    by (auto simp: searchContent_def Let_def set_array_sort dest!: in_set_takeD)
  then show ?thesis
    by (simp add: scoreItem_def Let_def foldl_scoreTerm title_tier_def)
qed

text \<open>
  C2. For every catalog and query the result of \<open>searchContent\<close> is sorted by score,
  highest first, and the returned records of any one score are, in their order, the
  first records of that score in the scored catalog: records of equal score keep the
  catalog's order.
\<close>

theorem searchContent_sorted_stable:
  "sorted_wrt (\<lambda>a b. score a \<ge> score b) (searchContent sd q) \<and>
   (\<forall>s. prefix (filter (\<lambda>r. score r = s) (searchContent sd q))
              (filter (\<lambda>r. score r = s) (map (scoreItem (searchTerms q)) sd)))"
proof (cases "searchTerms q = []")
  case True
  then show ?thesis by (simp add: searchContent_def)
next
  case False
  let ?xs = "filter (\<lambda>item. score item > 0) (map (scoreItem (searchTerms q)) sd)"
  have sc: "searchContent sd q = take SEARCH_RESULT_LIMIT (array_sort compareScore ?xs)"
    using False by (simp add: searchContent_def Let_def)
  have "sorted_wrt (\<lambda>a b. score a \<ge> score b) (array_sort compareScore ?xs)"
    by (rule sorted_array_sort)
  then have 1: "sorted_wrt (\<lambda>a b. score a \<ge> score b) (searchContent sd q)"
    unfolding sc by (rule sorted_wrt_take)
  have 2: "prefix (filter (\<lambda>r. score r = s) (searchContent sd q))
              (filter (\<lambda>r. score r = s) (map (scoreItem (searchTerms q)) sd))" for s
  proof -
    have "prefix (filter (\<lambda>r. score r = s) (searchContent sd q))
            (filter (\<lambda>r. score r = s) (array_sort compareScore ?xs))"
      unfolding sc by (rule prefix_filter_take)
    then have "prefix (filter (\<lambda>r. score r = s) (searchContent sd q))
            (filter (\<lambda>r. score r = s) ?xs)"
      by (simp only: stable_array_sort)
    then show ?thesis
      using prefix_filter_pos [of s "map (scoreItem (searchTerms q)) sd"]
      by (rule prefix_order.trans)
  qed
  from 1 2 show ?thesis by blast
qed

theorem searchContent_sorted_stable_witness:
  "map score (searchContent loadSearchData ''er'') = [120, 105, 105, 80, 55, 55, 50, 45, 45, 30]
   \<and> sorted_wrt (\<lambda>a b. score a \<ge> score b) (searchContent loadSearchData ''er'')
   \<and> map title (filter (\<lambda>r. score r = 105) (searchContent loadSearchData ''er''))
       = [''Career Mapping'', ''Mock Interviews'']
   \<and> prefix (filter (\<lambda>r. score r = 105) (searchContent loadSearchData ''er''))
        (filter (\<lambda>r. score r = 105) (map (scoreItem (searchTerms ''er'')) loadSearchData))"
proof -
  have "map snd (map (\<lambda>r. (title r, score r)) (searchContent loadSearchData ''er''))
        = [120, 105, 105, 80, 55, 55, 50, 45, 45, 30]"
    by (simp only: searchContent_er) simp
  then have 1: "map score (searchContent loadSearchData ''er'')
        = [120, 105, 105, 80, 55, 55, 50, 45, 45, 30]"
    by (simp add: comp_def)
  have "map fst (filter (\<lambda>p. snd p = 105)
          (map (\<lambda>r. (title r, score r)) (searchContent loadSearchData ''er'')))
        = [''Career Mapping'', ''Mock Interviews'']"
    by (simp only: searchContent_er) simp
  then have 2: "map title (filter (\<lambda>r. score r = 105) (searchContent loadSearchData ''er''))
        = [''Career Mapping'', ''Mock Interviews'']"
    by (simp add: filter_map comp_def)
  from 1 2 searchContent_sorted_stable [of loadSearchData "''er''"] show ?thesis
    by blast
qed

text \<open>
  C3. When the query yields no term (it is empty, it is white space only, or every piece
  between its runs of white space has length at most one), \<open>searchContent\<close> returns
  the empty sequence, whatever the catalog.
\<close>

theorem searchContent_no_terms:
  assumes "q = [] \<or> (\<forall>c \<in> set q. isWhiteSpace c)
           \<or> (\<forall>t \<in> set (split_ws (toLowerCase q)). length t \<le> 1)"
  shows "searchContent sd q = []"
proof -
  from assms have "searchTerms q = []"
  proof (elim disjE)
    assume "q = []"
    then show ?thesis by (simp add: searchTerms_all_ws)
  next
    assume "\<forall>c \<in> set q. isWhiteSpace c"
    then show ?thesis by (rule searchTerms_all_ws)
  next
    assume "\<forall>t \<in> set (split_ws (toLowerCase q)). length t \<le> 1"
    then show ?thesis by (auto simp: searchTerms_def filter_empty_conv)
  qed
  then show ?thesis by (simp add: searchContent_def)
qed

theorem searchContent_no_terms_witness:
  "length (split_ws (toLowerCase '' a  B c '')) = 5
   \<and> searchContent loadSearchData '' a  B c '' = []
   \<and> searchContent loadSearchData ''   '' = []
   \<and> searchContent loadSearchData [] = []"
proof -
  have sp: "split_ws (toLowerCase '' a  B c '') = [[], ''a'', ''b'', ''c'', []]"
    by code_simp
  then have "\<forall>t \<in> set (split_ws (toLowerCase '' a  B c '')). length t \<le> 1"
    by simp
  then have 1: "searchContent loadSearchData '' a  B c '' = []"
    using searchContent_no_terms [of "'' a  B c ''" loadSearchData] by blast
  have "\<forall>c \<in> set ''   ''. isWhiteSpace c"
    by (simp add: isWhiteSpace_Char)
  then have 2: "searchContent loadSearchData ''   '' = []"
    using searchContent_no_terms [of "''   ''" loadSearchData] by blast
  have 3: "searchContent loadSearchData [] = []"
    using searchContent_no_terms [of "[]" loadSearchData] by blast
  from sp 1 2 3 show ?thesis by simp
qed

text \<open>
  C4. For every catalog and query, every record that \<open>searchContent\<close> returns has a
  score above zero.
\<close>

theorem searchContent_scores_positive:
  "\<forall>r \<in> set (searchContent sd q). score r > 0"
  by (auto simp: searchContent_def Let_def set_array_sort dest!: in_set_takeD)

theorem searchContent_scores_positive_witness:
  "map score (searchContent loadSearchData ''pomodoro'') = [75, 25]
   \<and> 0 < score (hd (searchContent loadSearchData ''pomodoro''))
   \<and> 0 < score (last (searchContent loadSearchData ''pomodoro''))"
proof -
  have ne: "searchContent loadSearchData ''pomodoro'' \<noteq> []"
    by (simp add: searchContent_pomodoro)
  then have "hd (searchContent loadSearchData ''pomodoro'')
               \<in> set (searchContent loadSearchData ''pomodoro'')"
    and "last (searchContent loadSearchData ''pomodoro'')
               \<in> set (searchContent loadSearchData ''pomodoro'')"
    by simp_all
  then have "0 < score (hd (searchContent loadSearchData ''pomodoro''))"
    and "0 < score (last (searchContent loadSearchData ''pomodoro''))"
    using searchContent_scores_positive [of loadSearchData "''pomodoro''"] by blast+
  moreover have "map score (searchContent loadSearchData ''pomodoro'') = [75, 25]"
    by (simp add: searchContent_pomodoro)
  ultimately show ?thesis by blast
qed

text \<open>
  C5. For every catalog and query, \<open>searchContent\<close> returns at most
  \<open>SEARCH_RESULT_LIMIT\<close> records, and that limit is 10.
\<close>

theorem searchContent_length_le_limit:
  "length (searchContent sd q) \<le> SEARCH_RESULT_LIMIT \<and> SEARCH_RESULT_LIMIT = 10"
  by (simp add: searchContent_def Let_def SEARCH_RESULT_LIMIT_def)

theorem searchContent_length_le_limit_witness:
  "length (filter (\<lambda>r. 0 < score r) (map (scoreItem (searchTerms ''er'')) loadSearchData)) = 13
   \<and> length (searchContent loadSearchData ''er'') = 10
   \<and> length (searchContent loadSearchData ''er'') \<le> SEARCH_RESULT_LIMIT"
proof -
  have "length (map (\<lambda>r. (title r, score r))
          (filter (\<lambda>r. 0 < score r) (map (scoreItem (searchTerms ''er'')) loadSearchData))) = 13"
    by (simp only: scored_er) simp
  then have 1: "length (filter (\<lambda>r. 0 < score r)
                  (map (scoreItem (searchTerms ''er'')) loadSearchData)) = 13"
    by simp
  have "length (map (\<lambda>r. (title r, score r)) (searchContent loadSearchData ''er'')) = 10"
    by (simp only: searchContent_er) simp
  then have 2: "length (searchContent loadSearchData ''er'') = 10"
    by simp
  from 1 2 searchContent_length_le_limit [of loadSearchData "''er''"] show ?thesis
    by blast
qed

text \<open>
  C7. \<open>searchContent\<close> is deterministic: its steps read the catalog and the query
  only, and the one step that the language leaves to the engine, the sort, has a
  single result that the standard allows. So for every catalog and query the result
  of \<open>searchContent\<close> is an allowed output, and any two allowed outputs are the same
  sequence: the same records with the same scores in the same order.
\<close>

theorem searchContent_deterministic:
  "searchContent_result sd q (searchContent sd q)
   \<and> (\<forall>out1 out2. searchContent_result sd q out1 \<and> searchContent_result sd q out2
          \<longrightarrow> out1 = out2)"
proof -
  have a: "searchContent_result sd q (searchContent sd q)"
    using is_stable_sort_array_sort
    by (auto simp: searchContent_result_def searchContent_def Let_def)
  have b: "out = searchContent sd q" if "searchContent_result sd q out" for out
    using that is_stable_sort_unique
    by (auto simp: searchContent_result_def searchContent_def Let_def split: if_splits)
  from a b show ?thesis by metis
qed

theorem searchContent_deterministic_witness:
  "searchContent_result loadSearchData ''pomodoro'' (searchContent loadSearchData ''pomodoro'')
   \<and> map title (searchContent loadSearchData ''pomodoro'')
       = [''Pomodoro Technique'', ''Academic Balance'']"
proof -
  have "searchContent_result loadSearchData ''pomodoro''
          (searchContent loadSearchData ''pomodoro'')"
    using searchContent_deterministic [of loadSearchData "''pomodoro''"] by blast
  moreover have "map title (searchContent loadSearchData ''pomodoro'')
       = [''Pomodoro Technique'', ''Academic Balance'']"
    by (simp add: searchContent_pomodoro)
  ultimately show ?thesis by blast
qed

text \<open>
  C8. On the catalog of \<open>loadSearchData\<close> and the query \<open>pomodoro\<close>: the only term is
  \<open>pomodoro\<close>; the lowercased title of "Pomodoro Technique" is not the term but starts
  with it, so that record gets the title tier 75 (and no other bonus: its score is 75);
  the joined keywords of "Academic Balance" contain the term while its title does not,
  so that record gets the keyword bonus 25; \<open>searchContent\<close> returns exactly these two
  records, "Pomodoro Technique" first.
\<close>

theorem searchContent_pomodoro_scenario:
  "searchTerms ''pomodoro'' = [''pomodoro'']
   \<and> toLowerCase ''Pomodoro Technique'' \<noteq> ''pomodoro''
   \<and> startsWith (toLowerCase ''Pomodoro Technique'') ''pomodoro''
   \<and> \<not> includesStr (toLowerCase ''Academic Balance'') ''pomodoro''
   \<and> includesStr (toLowerCase (join '' '' [''balance'', ''wellness'', ''breaks'', ''pomodoro'']))
        ''pomodoro''
   \<and> map (\<lambda>r. (title r, score r)) (searchContent loadSearchData ''pomodoro'')
        = [(''Pomodoro Technique'', 75), (''Academic Balance'', 25)]
   \<and> set (map (\<lambda>r. \<lparr> title = title r, description = description r, category = category r,
                        page = page r, keywordList = keywordList r \<rparr>)
             (searchContent loadSearchData ''pomodoro'')) \<subseteq> set loadSearchData"
proof -
  have 1: "toLowerCase ''Pomodoro Technique'' = ''pomodoro technique''"
    and 2: "toLowerCase ''Academic Balance'' = ''academic balance''"
    by code_simp+
  have 3: "startsWith ''pomodoro technique'' ''pomodoro''"
    and 4: "\<not> includesStr ''academic balance'' ''pomodoro''"
    and 5: "includesStr
          (toLowerCase (join '' '' [''balance'', ''wellness'', ''breaks'', ''pomodoro'']))
          ''pomodoro''"
    by code_simp+
  have 6: "set (map (\<lambda>r. \<lparr> title = title r, description = description r,
                        category = category r, page = page r,
                        keywordList = keywordList r \<rparr>)
             (searchContent loadSearchData ''pomodoro'')) \<subseteq> set loadSearchData"
    unfolding searchContent_pomodoro by (simp add: loadSearchData_def)
  from 1 2 3 4 5 6 show ?thesis
    by (simp add: searchTerms_pomodoro searchContent_pomodoro)
qed

text \<open>
  C6, as the claim states it, fails in its last part. The query of two code units U+03D2
  (GREEK UPSILON WITH HOOK SYMBOL, an uppercase letter that has no lowercase letter) is
  left as it is by \<^verbatim>\<open>toLowerCase\<close>, holds no white space and has length two: it
  is its own only term, a term made of uppercase letters.
\<close>

theorem searchTerms16_uppercase_counterexample:
  "searchTerms16 toLowerCase16 [0x3D2, 0x3D2] = [[0x3D2, 0x3D2]] \<and> isUpper16 0x3D2"
proof -
  have "toLowerCase16 [0x3D2, 0x3D2] = [0x3D2, 0x3D2]"
    by (simp add: toLowerCase16_def toLowerUnit16_def)
  moreover have "split_ws16 [0x3D2, 0x3D2] = [[0x3D2, 0x3D2]]"
    by (rule split_ws16_no_ws) (simp add: isWhiteSpace16_def)
  moreover have "isUpper16 0x3D2"
    by (simp add: isUpper16_def upper_without_lower_def)
  ultimately show ?thesis
    by (simp add: searchTerms16_def)
qed

text \<open>
  C6, amended. For every query, on the code units of the host language and with the
  engine's \<^verbatim>\<open>toLowerCase\<close> (any function \<open>lower\<close> that keeps white space white
  space and whose results it leaves unchanged, as lowercasing does): the terms of
  \<open>searchContent\<close> are the query lowercased, split at its runs of white space,
  without the tokens of length at most one (the specification's tokenizer); a query that
  is empty or white space only has no term; and every term has length at least two, is
  a stretch of the lowercased query, and holds no white space and no character that
  lowercasing would change. So a term holds no uppercase letter that has a lowercase
  letter; an uppercase letter that has none stays.
\<close>

theorem searchTerms16_tokenizer:
  assumes white: "\<And>s. \<forall>c \<in> set s. isWhiteSpace16 c \<Longrightarrow> \<forall>c \<in> set (lower s). isWhiteSpace16 c"
    and stable: "\<And>s c. c \<in> set (lower s) \<Longrightarrow> lower [c] = [c]"
  shows "searchTerms16 lower q = tokenize16 lower q
   \<and> ((\<forall>c \<in> set q. isWhiteSpace16 c) \<longrightarrow> searchTerms16 lower q = [])
   \<and> (\<forall>t \<in> set (searchTerms16 lower q).
         2 \<le> length t \<and> sublist t (lower q)
         \<and> (\<forall>c \<in> set t. \<not> isWhiteSpace16 c \<and> lower [c] = [c]))"
proof -
  have 1: "searchTerms16 lower q = tokenize16 lower q"
    by (rule searchTerms16_tokenize16)
  have 2: "searchTerms16 lower q = []" if "\<forall>c \<in> set q. isWhiteSpace16 c"
  proof -
    from white [OF that] have "\<forall>t \<in> set (split_ws16 (lower q)). t = []"
      using split_ws16_all_ws by blast
    then show ?thesis
      by (auto simp: searchTerms16_def filter_empty_conv)
  qed
  have 3: "2 \<le> length t \<and> sublist t (lower q)
         \<and> (\<forall>c \<in> set t. \<not> isWhiteSpace16 c \<and> lower [c] = [c])"
    if "t \<in> set (searchTerms16 lower q)" for t
  proof -
    from that have len: "1 < length t" and mem: "t \<in> set (split_ws16 (lower q))"
      by (simp_all add: searchTerms16_def)
    from split_ws16_piece [OF mem]
    have sub: "sublist t (lower q)" and nows: "\<forall>c \<in> set t. \<not> isWhiteSpace16 c"
      by simp_all
    from sub have "set t \<subseteq> set (lower q)"
      by (rule set_mono_sublist)
    then have "\<forall>c \<in> set t. lower [c] = [c]"
      using stable by blast
    with len sub nows show ?thesis by auto
  qed
  from 1 2 3 show ?thesis by blast
qed

theorem searchTerms16_tokenizer_witness:
  "searchTerms16 toLowerCase16 [32, 83, 116, 32, 32, 0x3D2, 0x3D2, 32, 97, 0x3000]
     = [[115, 116], [0x3D2, 0x3D2]]
   \<and> tokenize16 toLowerCase16 [32, 83, 116, 32, 32, 0x3D2, 0x3D2, 32, 97, 0x3000]
     = [[115, 116], [0x3D2, 0x3D2]]
   \<and> searchTerms16 toLowerCase16 [32, 0x3000, 9] = []
   \<and> sublist [115, 116] (toLowerCase16 [32, 83, 116, 32, 32, 0x3D2, 0x3D2, 32, 97, 0x3000])
   \<and> toLowerCase16 [115] = [115]"
proof -
  let ?q = "[32, 83, 116, 32, 32, 0x3D2, 0x3D2, 32, 97, 0x3000] :: nat list"
  have inst: "searchTerms16 toLowerCase16 q = tokenize16 toLowerCase16 q
   \<and> ((\<forall>c \<in> set q. isWhiteSpace16 c) \<longrightarrow> searchTerms16 toLowerCase16 q = [])
   \<and> (\<forall>t \<in> set (searchTerms16 toLowerCase16 q).
         2 \<le> length t \<and> sublist t (toLowerCase16 q)
         \<and> (\<forall>c \<in> set t. \<not> isWhiteSpace16 c \<and> toLowerCase16 [c] = [c]))" for q
    by (rule searchTerms16_tokenizer) (erule toLowerCase16_white, erule toLowerCase16_stable)
  have low: "toLowerCase16 ?q = [32, 115, 116, 32, 32, 0x3D2, 0x3D2, 32, 97, 0x3000]"
    by (simp add: toLowerCase16_def toLowerUnit16_def)
  have "split_ws16 [32, 115, 116, 32, 32, 0x3D2, 0x3D2, 32, 97, 0x3000]
        = [[], [115, 116], [0x3D2, 0x3D2], [97], []]"
    by (simp add: split_ws16_Cons_ws split_ws16_Cons_non_ws split_ws16_Nil isWhiteSpace16_def)
  with low have e: "searchTerms16 toLowerCase16 ?q = [[115, 116], [0x3D2, 0x3D2]]"
    by (simp add: searchTerms16_def)
  have t: "tokenize16 toLowerCase16 ?q = [[115, 116], [0x3D2, 0x3D2]]"
    using inst [of ?q] e by simp
  have "\<forall>c \<in> set [32, 0x3000, 9 :: nat]. isWhiteSpace16 c"
    by (simp add: isWhiteSpace16_def)
  then have w: "searchTerms16 toLowerCase16 [32, 0x3000, 9] = []"
    using inst [of "[32, 0x3000, 9]"] by blast
  have "[115, 116] \<in> set (searchTerms16 toLowerCase16 ?q)"
    by (simp add: e)
  then have p: "sublist [115, 116] (toLowerCase16 ?q)
      \<and> (\<forall>c \<in> set [115, 116 :: nat]. toLowerCase16 [c] = [c])"
    using inst [of ?q] by blast
  then have "toLowerCase16 [115] = [115]"
    by simp
  with e t w p show ?thesis by blast
qed

text \<open>
  C9. The claim: every access to the preference store catches any failure (store
  disabled, quota exceeded, malformed stored value), logs a warning and falls back to a
  default in memory, so that initialization and the application of the theme always
  complete. The code breaks its last part. A stored value that is well-formed JSON with
  an object for its \<open>theme\<close>, the object having a property \<open>toString\<close>, passes
  \<open>loadPreferences\<close> without a warning; \<open>applyTheme\<close> then hands that object to
  \<^verbatim>\<open>setAttribute\<close>, whose conversion to a string throws a \<open>TypeError\<close>
  outside any \<^verbatim>\<open>try\<close>: \<open>init\<close> throws, no warning is logged, and neither the
  attribute nor the listener is set.
\<close>

theorem init_throws_on_stored_object_theme:
  "init example_engine
     (example_world\<lparr> storage := Some [(STORAGE_KEY, stored_object_theme)] \<rparr>) =
   (Inl (TypeError ''Cannot convert object to primitive value''),
    example_world
      \<lparr> theme := JObj [(''toString'', JNum 0)],
        preferences := JObj [(''theme'', JObj [(''toString'', JNum 0)])],
        storage := Some [(STORAGE_KEY, stored_object_theme)] \<rparr>)"
proof -
  have "ToString (JObj [(''toString'', JNum 0)])
        = Inl (TypeError ''Cannot convert object to primitive value'')"
    by simp
  then show ?thesis
    using init_throws_if [OF loadPreferences_stored_object_theme]
    by (simp add: example_world_def)
qed




end
